theory Spec2Isabelle
  imports Main "HOL-Library.AList"
begin

section \<open>Data model of \<open>maze_agent.py\<close>\<close>

text \<open>
  A maze location is a Python tuple \<open>(c, r)\<close> of unbounded integers. A proposition is the
  pair \<open>("P", location)\<close>, a literal a proposition with its polarity, and a clause is built
  by \<open>MazeClause\<close> from a list of literals.
\<close>

type_synonym coord = "int \<times> int"
type_synonym maze_prop = "string \<times> coord"
type_synonym literal = "maze_prop \<times> bool"

datatype clause = MazeClause "literal list"

text \<open>
  Modelled from the spec: the classes \<open>MazeClause\<close> and \<open>MazeKnowledgeBase\<close> are
  imported by \<open>maze_agent.py\<close> and are not part of the sources. A clause is a disjunction:
  an assignment of hazard (\<open>True\<close>) or safe (\<open>False\<close>) to locations satisfies it when at
  least one of its literals holds.
\<close>

fun holds :: "(coord \<Rightarrow> bool) \<Rightarrow> literal \<Rightarrow> bool" where
  "holds a ((k, l), pol) = (a l = pol)"

fun satisfies :: "(coord \<Rightarrow> bool) \<Rightarrow> clause \<Rightarrow> bool" where
  "satisfies a (MazeClause lits) = list_ex (holds a) lits"

fun clause_locs :: "clause \<Rightarrow> coord list" where
  "clause_locs (MazeClause lits) = map (\<lambda>lit. snd (fst lit)) lits"

text \<open>
  The knowledge base object is known to the agent only through the calls made on it. Its
  state is the sequence of the mutating calls it has received, oldest first: a freshly
  constructed \<open>MazeKnowledgeBase()\<close> has received none. The query \<open>ask\<close> does not change
  the store; what it answers is a parameter \<open>ask\<close> of the functions below, a function of
  the calls received so far and of the queried clause. The sets handed to
  \<open>simplify_self\<close> are recorded by value.
\<close>

datatype kb_call = Tell clause | Simplify "coord set" "coord set"

fun told :: "kb_call list \<Rightarrow> clause list" where
  "told [] = []"
| "told (Tell c # cs) = c # told cs"
| "told (Simplify pits safes # cs) = told cs"

text \<open>
  The environment is an external collaborator. \<open>get_cardinal_locs\<close> and
  \<open>get_frontier_locs\<close> return Python sets; the agent iterates over them, so each is given
  as the list of its elements in iteration order.
\<close>

record environment =
  get_goal_loc :: coord
  get_player_loc :: coord
  get_cardinal_locs :: "coord \<Rightarrow> int \<Rightarrow> coord list"
  get_frontier_locs :: "coord list"

record perception =
  loc :: coord
  tile :: string

record agent =
  goal :: coord
  start :: coord
  kb :: "kb_call list"
  possible_pits :: "coord set"
  pit_tiles :: "coord set"
  safe_tiles :: "coord set"

datatype error = IndexError

text \<open>\<open>best_score\<close> starts as \<open>float("inf")\<close> and later holds an integer score.\<close>

datatype score = PyInf | PyInt int

fun score_lt :: "int \<Rightarrow> score \<Rightarrow> bool" where
  "score_lt v PyInf = True"
| "score_lt v (PyInt b) = (v < b)"

fun truthy :: "score \<Rightarrow> bool" where
  "truthy PyInf = True"
| "truthy (PyInt b) = (b \<noteq> 0)"

section \<open>The agent\<close>

definition tell :: "clause \<Rightarrow> agent \<Rightarrow> agent" where
  "tell c s = s\<lparr>kb := kb s @ [Tell c]\<rparr>"

definition simplify_self :: "coord set \<Rightarrow> coord set \<Rightarrow> agent \<Rightarrow> agent" where
  "simplify_self pits safes s = s\<lparr>kb := kb s @ [Simplify pits safes]\<rparr>"

definition add_pit :: "coord \<Rightarrow> agent \<Rightarrow> agent" where
  "add_pit l s = s\<lparr>pit_tiles := insert l (pit_tiles s)\<rparr>"

definition add_safe :: "coord \<Rightarrow> agent \<Rightarrow> agent" where
  "add_safe l s = s\<lparr>safe_tiles := insert l (safe_tiles s)\<rparr>"

definition add_possible :: "coord \<Rightarrow> agent \<Rightarrow> agent" where
  "add_possible l s = s\<lparr>possible_pits := insert l (possible_pits s)\<rparr>"

definition discard_possible :: "coord \<Rightarrow> agent \<Rightarrow> agent" where
  "discard_possible l s = s\<lparr>possible_pits := possible_pits s - {l}\<rparr>"

text \<open>
  \<open>MazeAgent.__init__\<close>. The perception argument is not used by the constructor. The
  attributes \<open>env\<close> and \<open>maze\<close> are left out of the record: the environment is an
  argument of every function that reads it, and \<open>maze\<close> is never read.
\<close>

definition MazeAgent_init :: "environment \<Rightarrow> perception \<Rightarrow> agent" where
  "MazeAgent_init env p =
     (let s = \<lparr>goal = get_goal_loc env, start = get_player_loc env, kb = [],
               possible_pits = {}, pit_tiles = {}, safe_tiles = {}\<rparr>;
          s = add_safe (start s) s;
          s = add_safe (goal s) s
      in fold add_safe (get_cardinal_locs env (start s) 1) s)"

definition get_manhattan_dist :: "agent \<Rightarrow> coord \<Rightarrow> int" where
  "get_manhattan_dist s l = \<bar>fst l - fst (goal s)\<bar> + \<bar>snd l - snd (goal s)\<bar>"

definition is_safe_tile :: "(kb_call list \<Rightarrow> clause \<Rightarrow> bool) \<Rightarrow> agent \<Rightarrow> coord \<Rightarrow> bool option" where
  "is_safe_tile ask s l =
     (if l \<in> safe_tiles s then Some True
      else if l \<in> pit_tiles s then Some False
      else if ask (kb s) (MazeClause [((''P'', l), True)]) then Some False
      else if ask (kb s) (MazeClause [((''P'', l), False)]) then Some True
      else None)"

text \<open>
  \<open>warning_tile_clause\<close>. The two nested \<open>for\<close> loops over \<open>range(len(adj_list))\<close> and
  \<open>range(i+1, len(adj_list))\<close> tell one two-literal clause per pair of indices; the list
  called \<open>triple\<close> in the source collects one literal per element of \<open>adj_list\<close>.
\<close>

definition tell_pairs :: "bool \<Rightarrow> coord list \<Rightarrow> agent \<Rightarrow> agent" where
  "tell_pairs pol adj_list s =
     fold (\<lambda>i. fold (\<lambda>j. tell (MazeClause [((''P'', adj_list ! i), pol), ((''P'', adj_list ! j), pol)]))
                     [i + 1 ..< length adj_list])
          [0 ..< length adj_list] s"

definition triple :: "bool \<Rightarrow> coord list \<Rightarrow> literal list" where
  "triple pol adj_list = map (\<lambda>i. ((''P'', adj_list ! i), pol)) [0 ..< length adj_list]"

definition warning_tile_clause :: "environment \<Rightarrow> string \<Rightarrow> coord \<Rightarrow> agent \<Rightarrow> agent" where
  "warning_tile_clause env warning_num l s =
     (let adjacent_tiles = get_cardinal_locs env l 1;
          adj_list = filter (\<lambda>t. t \<notin> safe_tiles s) adjacent_tiles;
          s' =
            (if warning_num = ''3'' then
               fold (\<lambda>t s. tell (MazeClause [((''P'', t), True)]) (add_pit t s)) adjacent_tiles s
             else if warning_num = ''2'' then
               (if length adj_list = 2 then
                  add_pit (adj_list ! 1) (add_pit (adj_list ! 0)
                    (tell (MazeClause [((''P'', adj_list ! 1), True)])
                      (tell (MazeClause [((''P'', adj_list ! 0), True)]) s)))
                else
                  tell (MazeClause (triple False adj_list)) (tell_pairs True adj_list s))
             else if warning_num = ''1'' then
               (if length adj_list = 1 then
                  add_pit (adj_list ! 0) (tell (MazeClause [((''P'', adj_list ! 0), True)]) s)
                else
                  tell (MazeClause (triple True adj_list)) (tell_pairs False adj_list s))
             else s)
      in simplify_self (pit_tiles s') (safe_tiles s') s')"

text \<open>The three branches of \<open>think\<close> on the tile type (lines 89 to 114).\<close>

definition think_classify :: "environment \<Rightarrow> perception \<Rightarrow> agent \<Rightarrow> agent" where
  "think_classify env p s =
     (let location = loc p; tile_type = tile p in
      if tile_type = ''P'' then
        add_pit location (discard_possible location (tell (MazeClause [((''P'', location), True)]) s))
      else if tile_type = ''.'' then
        (let s = discard_possible location
                   (add_safe location (tell (MazeClause [((''P'', location), False)]) s))
         in fold (\<lambda>t s. tell (MazeClause [((''P'', t), False)]) (discard_possible t (add_safe t s)))
                 (get_cardinal_locs env location 1) s)
      else
        (let s = discard_possible location (add_safe location (warning_tile_clause env tile_type location s))
         in fold (\<lambda>c s. if c \<notin> safe_tiles s then add_possible c s else s)
                 (get_cardinal_locs env location 1) s))"

text \<open>
  The body of the loop over the frontier (lines 118 to 135). \<open>scores\<close> is a Python
  dictionary, which keeps its keys in insertion order and overwrites in place: an
  association list under \<open>AList.update\<close>.
\<close>

definition think_query ::
  "(kb_call list \<Rightarrow> clause \<Rightarrow> bool) \<Rightarrow> coord \<Rightarrow> agent \<times> (coord \<times> int) list \<times> bool
     \<Rightarrow> agent \<times> (coord \<times> int) list \<times> bool" where
  "think_query ask l = (\<lambda>(s, scores, assigned).
     let s = (if ask (kb s) (MazeClause [((''P'', l), True)])
              then discard_possible l (add_pit l s) else s);
         s = (if ask (kb s) (MazeClause [((''P'', l), False)])
              then discard_possible l (add_safe l s) else s)
     in if l \<in> pit_tiles s then
          (s, AList.update l (get_manhattan_dist s l + 20) scores, True)
        else if l \<notin> possible_pits s \<and> l \<in> safe_tiles s then
          (s, AList.update l (get_manhattan_dist s l) scores, True)
        else
          (s, AList.update l (get_manhattan_dist s l + 15) scores, True))"

text \<open>The body of the loop over \<open>scores\<close> (lines 137 to 140).\<close>

definition think_best :: "coord \<times> int \<Rightarrow> score \<times> coord option \<Rightarrow> score \<times> coord option" where
  "think_best = (\<lambda>(l, v) (best_score, best_location).
     if score_lt v best_score then (PyInt v, Some l) else (best_score, best_location))"

text \<open>
  \<open>random.choice\<close> raises \<open>IndexError\<close> on an empty sequence and otherwise returns the
  element at an index drawn below the length; the draw is the parameter \<open>rnd\<close>.
\<close>

definition random_choice :: "nat \<Rightarrow> coord list \<Rightarrow> error + coord option" where
  "random_choice rnd xs = (if xs = [] then Inl IndexError else Inr (Some (xs ! (rnd mod length xs))))"

text \<open>
  The agent when the loop over the frontier starts (lines 76 to 116), for a call that has
  passed the test on the goal.
\<close>

definition think_state :: "environment \<Rightarrow> agent \<Rightarrow> perception \<Rightarrow> agent" where
  "think_state env s p =
     (let s = tell (MazeClause [((''P'', goal s), False)]) s;
          s = add_safe (goal s) s;
          s = think_classify env p s
      in simplify_self (pit_tiles s) (safe_tiles s) s)"

text \<open>
  The agent, the dictionary \<open>scores\<close> and the flag \<open>assigned\<close> when the loop over
  the frontier ends.
\<close>

definition think_scores ::
  "(kb_call list \<Rightarrow> clause \<Rightarrow> bool) \<Rightarrow> environment \<Rightarrow> agent \<Rightarrow> perception
     \<Rightarrow> agent \<times> (coord \<times> int) list \<times> bool" where
  "think_scores ask env s p =
     fold (think_query ask) (get_frontier_locs env) (think_state env s p, [], False)"

text \<open>
  \<open>think\<close> returns the value it computes, or the exception it raises, together with the
  agent as the call leaves it. \<open>best_location\<close> is \<open>None\<close> until a score is found, so the
  returned value is an optional location. The two reads of \<open>get_frontier_locs\<close> (lines 80
  and 86) see the same frontier; the line printed before the fallback is left out.
\<close>

definition think ::
  "(kb_call list \<Rightarrow> clause \<Rightarrow> bool) \<Rightarrow> nat \<Rightarrow> environment \<Rightarrow> agent \<Rightarrow> perception
     \<Rightarrow> (error + coord option) \<times> agent" where
  "think ask rnd env s p =
     (let s0 = tell (MazeClause [((''P'', goal s), False)]) s;
          s0 = add_safe (goal s0) s0;
          frontier = get_frontier_locs env
      in if goal s0 \<in> set (get_frontier_locs env) then (Inr (Some (goal s0)), s0)
         else
           (let (s1, scores, assigned) = think_scores ask env s p;
                (best_score, best_location) = fold think_best scores (PyInf, None)
            in if assigned \<and> truthy best_score then (Inr best_location, s1)
               else (random_choice rnd frontier, s1)))"

section \<open>Notions used to state the properties\<close>

text \<open>
  The clauses told to the knowledge base between two states of the agent, in order.
\<close>

definition told_since :: "agent \<Rightarrow> agent \<Rightarrow> clause list" where
  "told_since s s' = told (drop (length (kb s)) (kb s'))"

text \<open>
  The list \<open>adj_list\<close> of \<open>warning_tile_clause\<close>: the cardinal neighbours of a location
  that are not in \<open>safe_tiles\<close>. The number of hazards an assignment puts on a list of
  locations, and the test that a clause mentions locations of a list only.
\<close>

definition adj_list :: "environment \<Rightarrow> agent \<Rightarrow> coord \<Rightarrow> coord list" where
  "adj_list env s l = filter (\<lambda>t. t \<notin> safe_tiles s) (get_cardinal_locs env l 1)"

definition hazard_count :: "(coord \<Rightarrow> bool) \<Rightarrow> coord list \<Rightarrow> nat" where
  "hazard_count a N = length (filter a N)"

definition mentions_only :: "coord list \<Rightarrow> clause \<Rightarrow> bool" where
  "mentions_only N c = list_all (\<lambda>l. l \<in> set N) (clause_locs c)"

text \<open>
  What \<open>warning_tile_clause\<close> is shown below to tell and to add to \<open>pit_tiles\<close>, as
  functions of the label, of the neighbours and of \<open>adj_list\<close>.
\<close>

definition pair_clauses :: "bool \<Rightarrow> coord list \<Rightarrow> clause list" where
  "pair_clauses pol adj =
     concat (map (\<lambda>i. map (\<lambda>j. MazeClause [((''P'', adj ! i), pol), ((''P'', adj ! j), pol)])
                           [i + 1 ..< length adj])
                 [0 ..< length adj])"

definition warning_clauses :: "string \<Rightarrow> coord list \<Rightarrow> coord list \<Rightarrow> clause list" where
  "warning_clauses warning_num adjacent_tiles adj =
     (if warning_num = ''3'' then map (\<lambda>t. MazeClause [((''P'', t), True)]) adjacent_tiles
      else if warning_num = ''2'' then
        (if length adj = 2
         then [MazeClause [((''P'', adj ! 0), True)], MazeClause [((''P'', adj ! 1), True)]]
         else pair_clauses True adj @ [MazeClause (triple False adj)])
      else if warning_num = ''1'' then
        (if length adj = 1 then [MazeClause [((''P'', adj ! 0), True)]]
         else pair_clauses False adj @ [MazeClause (triple True adj)])
      else [])"

definition warning_pits :: "string \<Rightarrow> coord list \<Rightarrow> coord list \<Rightarrow> coord set" where
  "warning_pits warning_num adjacent_tiles adj =
     (if warning_num = ''3'' then set adjacent_tiles
      else if warning_num = ''2'' \<and> length adj = 2 then {adj ! 0, adj ! 1}
      else if warning_num = ''1'' \<and> length adj = 1 then {adj ! 0}
      else {})"

text \<open>
  The loop over the frontier, split into what it does to the agent (\<open>query_state\<close>) and
  the score it stores (\<open>code_score\<close>, with the tests of lines 126 to 134). \<open>think_final\<close>
  is the agent when that loop ends.
\<close>

definition query_state :: "(kb_call list \<Rightarrow> clause \<Rightarrow> bool) \<Rightarrow> coord \<Rightarrow> agent \<Rightarrow> agent" where
  "query_state ask l s =
     (let s = (if ask (kb s) (MazeClause [((''P'', l), True)])
               then discard_possible l (add_pit l s) else s)
      in if ask (kb s) (MazeClause [((''P'', l), False)])
         then discard_possible l (add_safe l s) else s)"

definition code_score :: "agent \<Rightarrow> coord \<Rightarrow> int" where
  "code_score s l =
     (if l \<in> pit_tiles s then get_manhattan_dist s l + 20
      else if l \<notin> possible_pits s \<and> l \<in> safe_tiles s then get_manhattan_dist s l
      else get_manhattan_dist s l + 15)"

definition think_final ::
  "(kb_call list \<Rightarrow> clause \<Rightarrow> bool) \<Rightarrow> environment \<Rightarrow> agent \<Rightarrow> perception \<Rightarrow> agent" where
  "think_final ask env s p = fold (query_state ask) (get_frontier_locs env) (think_state env s p)"

text \<open>
  The score as the specification words it: the distance to the goal, plus 20 for a
  confirmed hazard, plus nothing for a confirmed safe location, plus 15 otherwise.
\<close>

definition claimed_score :: "agent \<Rightarrow> coord \<Rightarrow> int" where
  "claimed_score s l =
     get_manhattan_dist s l +
       (if l \<in> pit_tiles s then 20 else if l \<in> safe_tiles s then 0 else 15)"

text \<open>
  \<open>is_first_min f xs i\<close>: position \<open>i\<close> of \<open>xs\<close> holds the least value of \<open>f\<close>, and every
  earlier position holds a strictly greater one.
\<close>

definition is_first_min :: "(coord \<Rightarrow> int) \<Rightarrow> coord list \<Rightarrow> nat \<Rightarrow> bool" where
  "is_first_min f xs i =
     (i < length xs \<and> list_all (\<lambda>x. f (xs ! i) \<le> f x) xs \<and> list_all (\<lambda>x. f (xs ! i) < f x) (take i xs))"

text \<open>
  The agent keeps its record of safe locations apart from its record of possible hazards,
  and the goal is always recorded safe. The constructor establishes this and \<open>think\<close>
  keeps it (\<open>init_inv\<close>, \<open>think_inv\<close> below).
\<close>

definition agent_inv :: "agent \<Rightarrow> bool" where
  "agent_inv s = (possible_pits s \<inter> safe_tiles s = {} \<and> goal s \<in> safe_tiles s)"

section \<open>Concrete inputs\<close>

text \<open>
  An unbounded grid: the cardinal neighbours of a location at radius \<open>r\<close>, listed west,
  east, north, south. Three knowledge bases: one that entails nothing, one that entails
  every query, and one that entails exactly the clauses without a positive literal. The agent as constructed at \<open>(0, 0)\<close> with the goal at \<open>(3, 3)\<close>.
\<close>

definition open_grid :: "coord \<Rightarrow> coord \<Rightarrow> coord list \<Rightarrow> environment" where
  "open_grid g pl fr =
     \<lparr>get_goal_loc = g, get_player_loc = pl,
      get_cardinal_locs = (\<lambda>l r. [(fst l - r, snd l), (fst l + r, snd l), (fst l, snd l - r), (fst l, snd l + r)]),
      get_frontier_locs = fr\<rparr>"

definition ask_none :: "kb_call list \<Rightarrow> clause \<Rightarrow> bool" where
  "ask_none calls c = False"

definition ask_all :: "kb_call list \<Rightarrow> clause \<Rightarrow> bool" where
  "ask_all calls c = True"

definition ask_safe_only :: "kb_call list \<Rightarrow> clause \<Rightarrow> bool" where
  "ask_safe_only calls c = (case c of MazeClause lits \<Rightarrow> list_all (\<lambda>lit. \<not> snd lit) lits)"

definition fresh_agent :: agent where
  "fresh_agent = MazeAgent_init (open_grid (3, 3) (0, 0) []) \<lparr>loc = (0, 0), tile = ''.''\<rparr>"

definition one_pit :: "coord \<Rightarrow> bool" where
  "one_pit l = (l = (1, 1))"

text \<open>
  A knowledge base that entails exactly the clauses it has been told.
\<close>

definition ask_told :: "kb_call list \<Rightarrow> clause \<Rightarrow> bool" where
  "ask_told calls c = (c \<in> set (told calls))"

text \<open>
  A corridor along \<open>y = 0\<close> from \<open>(0, 0)\<close> to the goal \<open>(6, 0)\<close>, with one open cell
  on each side of \<open>(3, 0)\<close>; the cardinal neighbours of a location are its open
  neighbours. Its hazards are at \<open>(2, 0)\<close> and \<open>(4, 0)\<close>, so the tiles read \<open>"."\<close> at
  \<open>(0, 0)\<close>, \<open>"1"\<close> at \<open>(1, 0)\<close>, \<open>"P"\<close> at \<open>(2, 0)\<close> and \<open>"2"\<close> at \<open>(3, 0)\<close>.
  \<open>corridor_agent0\<close> is the agent as constructed there; \<open>corridor_agent1\<close> to
  \<open>corridor_agent3\<close> are the agent after each of its first three calls of \<open>think\<close>
  (\<open>corridor_step1\<close> to \<open>corridor_step3\<close> below). \<open>three_pits\<close> is an assignment with
  three hazards around \<open>(3, 0)\<close>.
\<close>

definition corridor_open :: "coord \<Rightarrow> bool" where
  "corridor_open l = ((snd l = 0 \<and> 0 \<le> fst l \<and> fst l \<le> 6) \<or> (fst l = 3 \<and> (snd l = 1 \<or> snd l = -1)))"

definition corridor :: "coord list \<Rightarrow> environment" where
  "corridor fr =
     \<lparr>get_goal_loc = (6, 0), get_player_loc = (0, 0),
      get_cardinal_locs = (\<lambda>l r. filter corridor_open
         [(fst l - r, snd l), (fst l + r, snd l), (fst l, snd l - r), (fst l, snd l + r)]),
      get_frontier_locs = fr\<rparr>"

definition corridor_pits :: "coord \<Rightarrow> bool" where
  "corridor_pits l = (l = (2, 0) \<or> l = (4, 0))"

definition three_pits :: "coord \<Rightarrow> bool" where
  "three_pits l = (l \<noteq> (3, 1))"

definition corridor_agent0 :: agent where
  "corridor_agent0 = MazeAgent_init (corridor []) \<lparr>loc = (0, 0), tile = ''.''\<rparr>"

definition corridor_agent1 :: agent where
  "corridor_agent1 = \<lparr>goal = (6, 0), start = (0, 0),
      kb = [Tell (MazeClause [((''P'', (6, 0)), False)]), Tell (MazeClause [((''P'', (0, 0)), False)]),
            Tell (MazeClause [((''P'', (1, 0)), False)]), Simplify {} {(1, 0), (6, 0), (0, 0)}],
      possible_pits = {}, pit_tiles = {}, safe_tiles = {(1, 0), (6, 0), (0, 0)}\<rparr>"

definition corridor_agent2 :: agent where
  "corridor_agent2 = \<lparr>goal = (6, 0), start = (0, 0),
      kb = [Tell (MazeClause [((''P'', (6, 0)), False)]), Tell (MazeClause [((''P'', (0, 0)), False)]),
            Tell (MazeClause [((''P'', (1, 0)), False)]), Simplify {} {(1, 0), (6, 0), (0, 0)},
            Tell (MazeClause [((''P'', (6, 0)), False)]), Tell (MazeClause [((''P'', (2, 0)), True)]),
            Simplify {(2, 0)} {(1, 0), (6, 0), (0, 0)}, Simplify {(2, 0)} {(1, 0), (6, 0), (0, 0)}],
      possible_pits = {}, pit_tiles = {(2, 0)}, safe_tiles = {(1, 0), (6, 0), (0, 0)}\<rparr>"

definition corridor_agent3 :: agent where
  "corridor_agent3 = \<lparr>goal = (6, 0), start = (0, 0),
      kb = [Tell (MazeClause [((''P'', (6, 0)), False)]), Tell (MazeClause [((''P'', (0, 0)), False)]),
            Tell (MazeClause [((''P'', (1, 0)), False)]), Simplify {} {(1, 0), (6, 0), (0, 0)},
            Tell (MazeClause [((''P'', (6, 0)), False)]), Tell (MazeClause [((''P'', (2, 0)), True)]),
            Simplify {(2, 0)} {(1, 0), (6, 0), (0, 0)}, Simplify {(2, 0)} {(1, 0), (6, 0), (0, 0)},
            Tell (MazeClause [((''P'', (6, 0)), False)]), Tell (MazeClause [((''P'', (2, 0)), True)]),
            Simplify {(2, 0)} {(1, 0), (6, 0), (0, 0)}],
      possible_pits = {}, pit_tiles = {(2, 0)}, safe_tiles = {(1, 0), (6, 0), (0, 0)}\<rparr>"

section \<open>Properties\<close>

lemma tell_fields [simp]:
  "kb (tell c s) = kb s @ [Tell c]" "goal (tell c s) = goal s" "start (tell c s) = start s"
  "possible_pits (tell c s) = possible_pits s" "pit_tiles (tell c s) = pit_tiles s"
  "safe_tiles (tell c s) = safe_tiles s"
  by (simp_all add: tell_def)

lemma simplify_self_fields [simp]:
  "kb (simplify_self a b s) = kb s @ [Simplify a b]" "goal (simplify_self a b s) = goal s"
  "start (simplify_self a b s) = start s"
  "possible_pits (simplify_self a b s) = possible_pits s" "pit_tiles (simplify_self a b s) = pit_tiles s"
  "safe_tiles (simplify_self a b s) = safe_tiles s"
  by (simp_all add: simplify_self_def)

lemma add_pit_fields [simp]:
  "kb (add_pit l s) = kb s" "goal (add_pit l s) = goal s" "start (add_pit l s) = start s"
  "possible_pits (add_pit l s) = possible_pits s" "pit_tiles (add_pit l s) = insert l (pit_tiles s)"
  "safe_tiles (add_pit l s) = safe_tiles s"
  by (simp_all add: add_pit_def)

lemma add_safe_fields [simp]:
  "kb (add_safe l s) = kb s" "goal (add_safe l s) = goal s" "start (add_safe l s) = start s"
  "possible_pits (add_safe l s) = possible_pits s" "pit_tiles (add_safe l s) = pit_tiles s"
  "safe_tiles (add_safe l s) = insert l (safe_tiles s)"
  by (simp_all add: add_safe_def)

lemma add_possible_fields [simp]:
  "kb (add_possible l s) = kb s" "goal (add_possible l s) = goal s" "start (add_possible l s) = start s"
  "possible_pits (add_possible l s) = insert l (possible_pits s)" "pit_tiles (add_possible l s) = pit_tiles s"
  "safe_tiles (add_possible l s) = safe_tiles s"
  by (simp_all add: add_possible_def)

lemma discard_possible_fields [simp]:
  "kb (discard_possible l s) = kb s" "goal (discard_possible l s) = goal s"
  "start (discard_possible l s) = start s"
  "possible_pits (discard_possible l s) = possible_pits s - {l}"
  "pit_tiles (discard_possible l s) = pit_tiles s"
  "safe_tiles (discard_possible l s) = safe_tiles s"
  by (simp_all add: discard_possible_def)

lemma fold_add_safe_fields:
  "kb (fold add_safe xs s) = kb s" "goal (fold add_safe xs s) = goal s"
  "start (fold add_safe xs s) = start s"
  "possible_pits (fold add_safe xs s) = possible_pits s"
  "pit_tiles (fold add_safe xs s) = pit_tiles s"
  "safe_tiles (fold add_safe xs s) = safe_tiles s \<union> set xs"
  by (induction xs arbitrary: s) auto

lemma told_append [simp]: "told (xs @ ys) = told xs @ told ys"
  by (induction xs rule: told.induct) auto

lemma told_map_Tell [simp]: "told (map Tell cs) = cs"
  by (induction cs) auto

lemma fold_tell_fields:
  "kb (fold (\<lambda>x. tell (f x)) xs s) = kb s @ map (\<lambda>x. Tell (f x)) xs"
  "goal (fold (\<lambda>x. tell (f x)) xs s) = goal s"
  "start (fold (\<lambda>x. tell (f x)) xs s) = start s"
  "possible_pits (fold (\<lambda>x. tell (f x)) xs s) = possible_pits s"
  "pit_tiles (fold (\<lambda>x. tell (f x)) xs s) = pit_tiles s"
  "safe_tiles (fold (\<lambda>x. tell (f x)) xs s) = safe_tiles s"
  by (induction xs arbitrary: s) auto

lemma fold_fold_tell_fields:
  "kb (fold (\<lambda>i. fold (\<lambda>j. tell (g i j)) (js i)) is s) =
     kb s @ concat (map (\<lambda>i. map (\<lambda>j. Tell (g i j)) (js i)) is)"
  "goal (fold (\<lambda>i. fold (\<lambda>j. tell (g i j)) (js i)) is s) = goal s"
  "start (fold (\<lambda>i. fold (\<lambda>j. tell (g i j)) (js i)) is s) = start s"
  "possible_pits (fold (\<lambda>i. fold (\<lambda>j. tell (g i j)) (js i)) is s) = possible_pits s"
  "pit_tiles (fold (\<lambda>i. fold (\<lambda>j. tell (g i j)) (js i)) is s) = pit_tiles s"
  "safe_tiles (fold (\<lambda>i. fold (\<lambda>j. tell (g i j)) (js i)) is s) = safe_tiles s"
  by (induction "is" arbitrary: s) (auto simp: fold_tell_fields)

lemma tell_pairs_fields:
  "kb (tell_pairs pol xs s) = kb s @ map Tell (pair_clauses pol xs)"
  "goal (tell_pairs pol xs s) = goal s"
  "start (tell_pairs pol xs s) = start s"
  "possible_pits (tell_pairs pol xs s) = possible_pits s"
  "pit_tiles (tell_pairs pol xs s) = pit_tiles s"
  "safe_tiles (tell_pairs pol xs s) = safe_tiles s"
  by (simp_all add: tell_pairs_def pair_clauses_def fold_fold_tell_fields map_concat comp_def)

lemma fold_tell_pit_fields:
  "kb (fold (\<lambda>t s. tell (MazeClause [((''P'', t), True)]) (add_pit t s)) xs s) =
     kb s @ map (\<lambda>t. Tell (MazeClause [((''P'', t), True)])) xs"
  "goal (fold (\<lambda>t s. tell (MazeClause [((''P'', t), True)]) (add_pit t s)) xs s) = goal s"
  "start (fold (\<lambda>t s. tell (MazeClause [((''P'', t), True)]) (add_pit t s)) xs s) = start s"
  "possible_pits (fold (\<lambda>t s. tell (MazeClause [((''P'', t), True)]) (add_pit t s)) xs s) = possible_pits s"
  "pit_tiles (fold (\<lambda>t s. tell (MazeClause [((''P'', t), True)]) (add_pit t s)) xs s) = pit_tiles s \<union> set xs"
  "safe_tiles (fold (\<lambda>t s. tell (MazeClause [((''P'', t), True)]) (add_pit t s)) xs s) = safe_tiles s"
  by (induction xs arbitrary: s) auto

lemma warning_tile_clause_fields:
  "kb (warning_tile_clause env w l s) =
     kb s @ map Tell (warning_clauses w (get_cardinal_locs env l 1)
                        (filter (\<lambda>t. t \<notin> safe_tiles s) (get_cardinal_locs env l 1)))
          @ [Simplify (pit_tiles (warning_tile_clause env w l s)) (safe_tiles s)]"
  "goal (warning_tile_clause env w l s) = goal s"
  "start (warning_tile_clause env w l s) = start s"
  "possible_pits (warning_tile_clause env w l s) = possible_pits s"
  "pit_tiles (warning_tile_clause env w l s) =
     pit_tiles s \<union> warning_pits w (get_cardinal_locs env l 1)
                        (filter (\<lambda>t. t \<notin> safe_tiles s) (get_cardinal_locs env l 1))"
  "safe_tiles (warning_tile_clause env w l s) = safe_tiles s"
  by (auto simp: warning_tile_clause_def warning_clauses_def warning_pits_def Let_def
        fold_tell_pit_fields tell_pairs_fields comp_def)

lemma told_since_warning:
  "told_since s (warning_tile_clause env w l s) =
     warning_clauses w (get_cardinal_locs env l 1)
       (filter (\<lambda>t. t \<notin> safe_tiles s) (get_cardinal_locs env l 1))"
  by (simp add: told_since_def warning_tile_clause_fields(1))

lemma short_list_cases:
  assumes "length xs \<le> 4"
  obtains "xs = []" | x where "xs = [x]" | x y where "xs = [x, y]"
    | x y z where "xs = [x, y, z]" | x y z u where "xs = [x, y, z, u]"
proof (cases xs)
  case Nil then show ?thesis using that by simp
next
  case (Cons x1 r1)
  show ?thesis
  proof (cases r1)
    case Nil then show ?thesis using Cons that by simp
  next
    case (Cons x2 r2)
    note c2 = this
    show ?thesis
    proof (cases r2)
      case Nil then show ?thesis using c2 \<open>xs = x1 # r1\<close> that by simp
    next
      case (Cons x3 r3)
      note c3 = this
      show ?thesis
      proof (cases r3)
        case Nil then show ?thesis using c2 c3 \<open>xs = x1 # r1\<close> that by simp
      next
        case (Cons x4 r4)
        then have "r4 = []" using assms c2 c3 \<open>xs = x1 # r1\<close> by simp
        then show ?thesis using Cons c2 c3 \<open>xs = x1 # r1\<close> that by simp
      qed
    qed
  qed
qed

lemma pair_clauses_small:
  "pair_clauses pol [] = []"
  "pair_clauses pol [x] = []"
  "pair_clauses pol [x, y] = [MazeClause [((''P'', x), pol), ((''P'', y), pol)]]"
  "pair_clauses pol [x, y, z] =
     [MazeClause [((''P'', x), pol), ((''P'', y), pol)], MazeClause [((''P'', x), pol), ((''P'', z), pol)],
      MazeClause [((''P'', y), pol), ((''P'', z), pol)]]"
  "pair_clauses pol [x, y, z, u] =
     [MazeClause [((''P'', x), pol), ((''P'', y), pol)], MazeClause [((''P'', x), pol), ((''P'', z), pol)],
      MazeClause [((''P'', x), pol), ((''P'', u), pol)],
      MazeClause [((''P'', y), pol), ((''P'', z), pol)], MazeClause [((''P'', y), pol), ((''P'', u), pol)],
      MazeClause [((''P'', z), pol), ((''P'', u), pol)]]"
  by (simp_all add: pair_clauses_def upt_rec)

lemma triple_eq: "triple pol xs = map (\<lambda>x. ((''P'', x), pol)) xs"
  unfolding triple_def by (rule nth_equalityI) simp_all

lemma enc1_sat:
  assumes "length xs \<le> 4"
  shows "list_all (satisfies a) (warning_clauses ''1'' adj xs) \<longleftrightarrow> length (filter a xs) = 1"
  using assms
  by (cases xs rule: short_list_cases)
     (auto simp: warning_clauses_def pair_clauses_small triple_eq)

lemma enc2_sat:
  assumes "length xs \<in> {0, 2, 3}"
  shows "list_all (satisfies a) (warning_clauses ''2'' adj xs) \<longleftrightarrow> length (filter a xs) = 2"
proof -
  have "length xs \<le> 4" using assms by auto
  then show ?thesis using assms
    by (cases xs rule: short_list_cases)
       (auto simp: warning_clauses_def pair_clauses_small triple_eq)
qed

lemma enc2_four:
  assumes "length xs = 4"
  shows "list_all (satisfies a) (warning_clauses ''2'' adj xs) \<longleftrightarrow> length (filter a xs) = 3"
proof -
  have "length xs \<le> 4" using assms by auto
  then show ?thesis using assms
    by (cases xs rule: short_list_cases)
       (auto simp: warning_clauses_def pair_clauses_small triple_eq)
qed

lemma query_state_fields:
  "kb (query_state ask l s) = kb s" "goal (query_state ask l s) = goal s"
  "start (query_state ask l s) = start s"
  "pit_tiles (query_state ask l s) =
     (if ask (kb s) (MazeClause [((''P'', l), True)]) then insert l (pit_tiles s) else pit_tiles s)"
  "safe_tiles (query_state ask l s) =
     (if ask (kb s) (MazeClause [((''P'', l), False)]) then insert l (safe_tiles s) else safe_tiles s)"
  "possible_pits (query_state ask l s) =
     (if ask (kb s) (MazeClause [((''P'', l), True)]) \<or> ask (kb s) (MazeClause [((''P'', l), False)])
      then possible_pits s - {l} else possible_pits s)"
  by (auto simp: query_state_def Let_def)

lemma think_query_eq:
  "think_query ask l (s, scores, assigned) =
     (query_state ask l s, AList.update l (code_score (query_state ask l s) l) scores, True)"
  by (simp add: think_query_def query_state_def code_score_def Let_def)

lemma fold_query_state_fields:
  "kb (fold (query_state ask) xs s) = kb s" "goal (fold (query_state ask) xs s) = goal s"
  "start (fold (query_state ask) xs s) = start s"
  "pit_tiles (fold (query_state ask) xs s) =
     pit_tiles s \<union> {l \<in> set xs. ask (kb s) (MazeClause [((''P'', l), True)])}"
  "safe_tiles (fold (query_state ask) xs s) =
     safe_tiles s \<union> {l \<in> set xs. ask (kb s) (MazeClause [((''P'', l), False)])}"
  "possible_pits (fold (query_state ask) xs s) =
     possible_pits s - {l \<in> set xs. ask (kb s) (MazeClause [((''P'', l), True)])
                                  \<or> ask (kb s) (MazeClause [((''P'', l), False)])}"
  by (induction xs arbitrary: s) (auto simp: query_state_fields)

lemma code_score_stable:
  "code_score (fold (query_state ask) xs (query_state ask l s)) l = code_score (query_state ask l s) l"
  by (auto simp: code_score_def get_manhattan_dist_def fold_query_state_fields query_state_fields)

lemma fold_think_query:
  "fold (think_query ask) xs (s, scores, assigned) =
     (fold (query_state ask) xs s,
      fold (\<lambda>l. AList.update l (code_score (fold (query_state ask) xs s) l)) xs scores,
      assigned \<or> xs \<noteq> [])"
proof (induction xs arbitrary: s scores assigned)
  case Nil
  then show ?case by simp
next
  case (Cons x xs)
  show ?case
    by (simp add: think_query_eq Cons.IH code_score_stable)
qed

lemma update_fresh: "k \<notin> fst ` set al \<Longrightarrow> AList.update k v al = al @ [(k, v)]"
  by (induction al) auto

lemma fold_update_distinct:
  "distinct xs \<Longrightarrow> set xs \<inter> fst ` set acc = {} \<Longrightarrow>
   fold (\<lambda>l. AList.update l (f l)) xs acc = acc @ map (\<lambda>l. (l, f l)) xs"
proof (induction xs arbitrary: acc)
  case Nil
  then show ?case by simp
next
  case (Cons x xs)
  have fresh: "x \<notin> fst ` set acc" using Cons.prems by auto
  have "set xs \<inter> fst ` set (acc @ [(x, f x)]) = {}" using Cons.prems by auto
  then show ?case using Cons.IH [of "acc @ [(x, f x)]"] Cons.prems fresh
    by (simp add: update_fresh)
qed

lemma fold_clear_fields:
  "kb (fold (\<lambda>t s. tell (MazeClause [((''P'', t), False)]) (discard_possible t (add_safe t s))) xs s) =
     kb s @ map (\<lambda>t. Tell (MazeClause [((''P'', t), False)])) xs"
  "goal (fold (\<lambda>t s. tell (MazeClause [((''P'', t), False)]) (discard_possible t (add_safe t s))) xs s) = goal s"
  "start (fold (\<lambda>t s. tell (MazeClause [((''P'', t), False)]) (discard_possible t (add_safe t s))) xs s) = start s"
  "possible_pits (fold (\<lambda>t s. tell (MazeClause [((''P'', t), False)]) (discard_possible t (add_safe t s))) xs s) =
     possible_pits s - set xs"
  "pit_tiles (fold (\<lambda>t s. tell (MazeClause [((''P'', t), False)]) (discard_possible t (add_safe t s))) xs s) =
     pit_tiles s"
  "safe_tiles (fold (\<lambda>t s. tell (MazeClause [((''P'', t), False)]) (discard_possible t (add_safe t s))) xs s) =
     safe_tiles s \<union> set xs"
  by (induction xs arbitrary: s) auto

lemma fold_possible_fields:
  "kb (fold (\<lambda>c s. if c \<notin> safe_tiles s then add_possible c s else s) xs s) = kb s"
  "goal (fold (\<lambda>c s. if c \<notin> safe_tiles s then add_possible c s else s) xs s) = goal s"
  "start (fold (\<lambda>c s. if c \<notin> safe_tiles s then add_possible c s else s) xs s) = start s"
  "possible_pits (fold (\<lambda>c s. if c \<notin> safe_tiles s then add_possible c s else s) xs s) =
     possible_pits s \<union> {c \<in> set xs. c \<notin> safe_tiles s}"
  "pit_tiles (fold (\<lambda>c s. if c \<notin> safe_tiles s then add_possible c s else s) xs s) = pit_tiles s"
  "safe_tiles (fold (\<lambda>c s. if c \<notin> safe_tiles s then add_possible c s else s) xs s) = safe_tiles s"
  by (induction xs arbitrary: s) auto

lemma think_classify_goal: "goal (think_classify env p s) = goal s"
  by (simp add: think_classify_def Let_def fold_clear_fields fold_possible_fields
        warning_tile_clause_fields)

lemma think_classify_safe_mono: "safe_tiles s \<subseteq> safe_tiles (think_classify env p s)"
  by (auto simp: think_classify_def Let_def fold_clear_fields fold_possible_fields
        warning_tile_clause_fields)

lemma think_classify_inv:
  "possible_pits s \<inter> safe_tiles s = {} \<Longrightarrow>
   possible_pits (think_classify env p s) \<inter> safe_tiles (think_classify env p s) = {}"
  by (auto simp: think_classify_def Let_def fold_clear_fields fold_possible_fields
        warning_tile_clause_fields)

lemma think_state_goal: "goal (think_state env s p) = goal s"
  by (simp add: think_state_def Let_def think_classify_goal)

lemma think_state_inv: "agent_inv s \<Longrightarrow> agent_inv (think_state env s p)"
proof -
  assume inv: "agent_inv s"
  let ?s0 = "add_safe (goal s) (tell (MazeClause [((''P'', goal s), False)]) s)"
  have a: "possible_pits ?s0 \<inter> safe_tiles ?s0 = {}" and g: "goal s \<in> safe_tiles ?s0"
    using inv by (auto simp: agent_inv_def)
  have "goal s \<in> safe_tiles (think_classify env p ?s0)"
    using g think_classify_safe_mono by blast
  then show ?thesis
    using think_classify_inv [OF a, of env p]
    by (simp add: agent_inv_def think_state_def Let_def think_classify_goal)
qed

lemma fold_query_state_inv: "agent_inv s \<Longrightarrow> agent_inv (fold (query_state ask) xs s)"
  by (auto simp: agent_inv_def fold_query_state_fields)

lemma init_inv: "agent_inv (MazeAgent_init env p)"
  by (simp add: agent_inv_def MazeAgent_init_def Let_def fold_add_safe_fields)

lemma claimed_score_eq: "agent_inv s \<Longrightarrow> claimed_score s l = code_score s l"
  by (auto simp: agent_inv_def claimed_score_def code_score_def)

lemma fold_think_best:
  "ps \<noteq> [] \<Longrightarrow>
   \<exists>i. i < length ps \<and> fold think_best ps (PyInf, None) = (PyInt (snd (ps ! i)), Some (fst (ps ! i)))
       \<and> list_all (\<lambda>q. snd (ps ! i) \<le> snd q) ps
       \<and> list_all (\<lambda>q. snd (ps ! i) < snd q) (take i ps)"
proof (induction ps rule: rev_induct)
  case Nil
  then show ?case by simp
next
  case (snoc q ps)
  show ?case
  proof (cases "ps = []")
    case True
    then show ?thesis by (cases q) (simp add: think_best_def)
  next
    case False
    from snoc.IH [OF False] obtain i where i: "i < length ps"
      and f: "fold think_best ps (PyInf, None) = (PyInt (snd (ps ! i)), Some (fst (ps ! i)))"
      and le: "list_all (\<lambda>r. snd (ps ! i) \<le> snd r) ps"
      and lt: "list_all (\<lambda>r. snd (ps ! i) < snd r) (take i ps)" by blast
    show ?thesis
    proof (cases "snd q < snd (ps ! i)")
      case True
      have "fold think_best (ps @ [q]) (PyInf, None) = (PyInt (snd q), Some (fst q))"
        using f True by (cases q) (simp add: think_best_def)
      moreover have "list_all (\<lambda>r. snd q \<le> snd r) (ps @ [q])"
        using le True by (auto simp: list_all_iff)
      moreover have "list_all (\<lambda>r. snd q < snd r) ps"
        using le True by (auto simp: list_all_iff)
      ultimately show ?thesis
        by (intro exI [of _ "length ps"]) simp
    next
      case False
      have "fold think_best (ps @ [q]) (PyInf, None) = (PyInt (snd (ps ! i)), Some (fst (ps ! i)))"
        using f False by (cases q) (simp add: think_best_def)
      moreover have "list_all (\<lambda>r. snd (ps ! i) \<le> snd r) (ps @ [q])"
        using le False by (auto simp: list_all_iff)
      ultimately show ?thesis using i lt
        by (intro exI [of _ i]) (simp add: nth_append)
    qed
  qed
qed

lemma think_scores_final:
  "think_scores ask env s p =
     (think_final ask env s p,
      fold (\<lambda>l. AList.update l (code_score (think_final ask env s p) l)) (get_frontier_locs env) [],
      get_frontier_locs env \<noteq> [])"
  by (simp add: think_scores_def think_final_def fold_think_query)

lemma think_unfold:
  assumes "goal s \<notin> set (get_frontier_locs env)"
  shows "think ask rnd env s p =
     (let scores = fold (\<lambda>l. AList.update l (code_score (think_final ask env s p) l)) (get_frontier_locs env) [];
          b = fold think_best scores (PyInf, None)
      in if get_frontier_locs env \<noteq> [] \<and> truthy (fst b) then (Inr (snd b), think_final ask env s p)
         else (random_choice rnd (get_frontier_locs env), think_final ask env s p))"
  using assms by (simp add: think_def think_scores_final Let_def split_beta)

lemma think_final_goal: "goal (think_final ask env s p) = goal s"
  by (simp add: think_final_def fold_query_state_fields think_state_goal)

lemma think_final_inv: "agent_inv s \<Longrightarrow> agent_inv (think_final ask env s p)"
  by (simp add: think_final_def fold_query_state_inv think_state_inv)

lemma think_snd:
  "goal s \<notin> set (get_frontier_locs env) \<Longrightarrow> snd (think ask rnd env s p) = think_final ask env s p"
  by (simp add: think_unfold Let_def)

lemma code_score_pos: "l \<noteq> goal s \<Longrightarrow> 0 < code_score s l"
  by (cases l; cases "goal s") (auto simp: code_score_def get_manhattan_dist_def)

lemma map_of_fold_update:
  "map_of (fold (\<lambda>l. AList.update l (f l)) xs acc) l =
     (if l \<in> set xs then Some (f l) else map_of acc l)"
  by (induction xs arbitrary: acc) (auto simp: AList.update_conv')

lemma think_nonempty:
  assumes g: "goal s \<notin> set (get_frontier_locs env)" and ne: "get_frontier_locs env \<noteq> []"
    and d: "distinct (get_frontier_locs env)"
  shows "\<exists>i. is_first_min (code_score (think_final ask env s p)) (get_frontier_locs env) i
           \<and> fst (think ask rnd env s p) = Inr (Some (get_frontier_locs env ! i))"
proof -
  let ?F = "get_frontier_locs env"
  let ?f = "code_score (think_final ask env s p)"
  let ?ps = "map (\<lambda>l. (l, ?f l)) ?F"
  have sc: "fold (\<lambda>l. AList.update l (?f l)) ?F [] = ?ps"
    using fold_update_distinct [OF d, of "[]" ?f] by simp
  have "?ps \<noteq> []" using ne by simp
  from fold_think_best [OF this] obtain i where i: "i < length ?ps"
    and f: "fold think_best ?ps (PyInf, None) = (PyInt (snd (?ps ! i)), Some (fst (?ps ! i)))"
    and le: "list_all (\<lambda>q. snd (?ps ! i) \<le> snd q) ?ps"
    and lt: "list_all (\<lambda>q. snd (?ps ! i) < snd q) (take i ?ps)" by blast
  have i': "i < length ?F" using i by simp
  have nth: "?ps ! i = (?F ! i, ?f (?F ! i))" using i' by simp
  have "?F ! i \<in> set ?F" using i' by simp
  then have "?F ! i \<noteq> goal (think_final ask env s p)" using g by (auto simp: think_final_goal)
  then have pos: "?f (?F ! i) \<noteq> 0" using code_score_pos [of "?F ! i" "think_final ask env s p"] by simp
  have fm: "is_first_min ?f ?F i"
    using i' le lt unfolding nth by (simp add: is_first_min_def list_all_iff take_map)
  have "fst (think ask rnd env s p) = Inr (Some (?F ! i))"
    using ne pos by (simp add: think_unfold [OF g] sc f nth Let_def)
  with fm show ?thesis by blast
qed

lemma fresh_agent_eq:
  "fresh_agent = \<lparr>goal = (3, 3), start = (0, 0), kb = [], possible_pits = {}, pit_tiles = {},
                   safe_tiles = {(0, 1), (0, -1), (1, 0), (-1, 0), (3, 3), (0, 0)}\<rparr>"
  by (simp add: fresh_agent_def MazeAgent_init_def open_grid_def Let_def add_safe_def)

text \<open>On a list without repetition \<open>hazard_count\<close> counts the hazardous locations.\<close>

lemma hazard_count_card: "distinct N \<Longrightarrow> hazard_count a N = card {x \<in> set N. a x}"
proof -
  assume "distinct N"
  then have "distinct (filter a N)" by simp
  then have "card (set (filter a N)) = length (filter a N)" by (rule distinct_card)
  moreover have "set (filter a N) = {x \<in> set N. a x}" by auto
  ultimately show ?thesis by (simp add: hazard_count_def)
qed

lemma pair_clauses_locs: "c \<in> set (pair_clauses pol xs) \<Longrightarrow> mentions_only xs c"
  by (auto simp: pair_clauses_def mentions_only_def)

lemma triple_locs: "mentions_only xs (MazeClause (triple pol xs))"
  by (simp add: mentions_only_def triple_eq list_all_iff)

lemma unit_locs: "i < length xs \<Longrightarrow> mentions_only xs (MazeClause [((k, xs ! i), pol)])"
  by (simp add: mentions_only_def)

lemma warning_clauses_locs:
  assumes "w = ''1'' \<or> w = ''2''"
  shows "list_all (mentions_only xs) (warning_clauses w adj xs)"
proof -
  have p: "list_all (mentions_only xs) (pair_clauses pol xs)" for pol
    by (simp add: list_all_iff pair_clauses_locs)
  show ?thesis using assms
    by (auto simp: warning_clauses_def p triple_locs unit_locs)
qed

subsection \<open>The encoder\<close>

text \<open>
  Where the encoder is right. For the label 1 with at most four unresolved neighbours, and
  for the label 2 with no, two or three unresolved neighbours, every clause that
  \<open>warning_tile_clause\<close> tells mentions unresolved neighbours only, and an assignment
  satisfies all of them if and only if it makes exactly 1, respectively 2, of the
  unresolved neighbours hazards.
\<close>

lemma encoder_exactly_k:
  assumes "N = adj_list env s l" and "length N \<le> 4"
    and "(w = ''1'' \<and> k = 1) \<or> (w = ''2'' \<and> k = 2 \<and> length N \<in> {0, 2, 3})"
  shows "list_all (mentions_only N) (told_since s (warning_tile_clause env w l s)) \<and>
         (list_all (satisfies a) (told_since s (warning_tile_clause env w l s)) \<longleftrightarrow> hazard_count a N = k)"
proof -
  have t: "told_since s (warning_tile_clause env w l s) = warning_clauses w (get_cardinal_locs env l 1) N"
    using assms(1) by (simp add: told_since_warning adj_list_def)
  have "w = ''1'' \<or> w = ''2''" using assms(3) by auto
  then have m: "list_all (mentions_only N) (warning_clauses w (get_cardinal_locs env l 1) N)"
    by (rule warning_clauses_locs)
  have "list_all (satisfies a) (warning_clauses w (get_cardinal_locs env l 1) N) \<longleftrightarrow> hazard_count a N = k"
    using assms(3)
  proof
    assume "w = ''1'' \<and> k = 1"
    then show ?thesis using enc1_sat [OF assms(2)] by (simp add: hazard_count_def)
  next
    assume "w = ''2'' \<and> k = 2 \<and> length N \<in> {0, 2, 3}"
    then show ?thesis using enc2_sat [of N] by (simp add: hazard_count_def)
  qed
  with m t show ?thesis by simp
qed

lemma adj_fresh_01: "adj_list (open_grid (3, 3) (0, 0) []) fresh_agent (0, 1) = [(-1, 1), (1, 1), (0, 2)]"
  by (simp add: adj_list_def fresh_agent_eq open_grid_def)

lemma encoder_exactly_k_example:
  "length (adj_list (open_grid (3, 3) (0, 0) []) fresh_agent (0, 1)) = 3 \<and>
   list_all (mentions_only [(-1, 1), (1, 1), (0, 2)])
     (told_since fresh_agent (warning_tile_clause (open_grid (3, 3) (0, 0) []) ''1'' (0, 1) fresh_agent)) \<and>
   list_all (satisfies one_pit)
     (told_since fresh_agent (warning_tile_clause (open_grid (3, 3) (0, 0) []) ''1'' (0, 1) fresh_agent)) \<and>
   hazard_count one_pit [(-1, 1), (1, 1), (0, 2)] = 1 \<and>
   \<not> list_all (satisfies one_pit)
     (told_since fresh_agent (warning_tile_clause (open_grid (3, 3) (0, 0) []) ''2'' (0, 1) fresh_agent))"
  using encoder_exactly_k [of "[(-1, 1), (1, 1), (0, 2)]" "open_grid (3, 3) (0, 0) []" fresh_agent "(0, 1)"
          "''1''" 1 one_pit]
        encoder_exactly_k [of "[(-1, 1), (1, 1), (0, 2)]" "open_grid (3, 3) (0, 0) []" fresh_agent "(0, 1)"
          "''2''" 2 one_pit]
  by (simp add: adj_fresh_01 hazard_count_def one_pit_def)

text \<open>
  The label 3 tells one unit hazard clause per cardinal neighbour. When every neighbour is
  unresolved and there are three of them, that is exactly 3.
\<close>

lemma label_three_exact:
  assumes "adj_list env s l = get_cardinal_locs env l 1" and "length (adj_list env s l) = 3"
  shows "list_all (mentions_only (adj_list env s l)) (told_since s (warning_tile_clause env ''3'' l s)) \<and>
         (list_all (satisfies a) (told_since s (warning_tile_clause env ''3'' l s))
            \<longleftrightarrow> hazard_count a (adj_list env s l) = 3)"
proof -
  have t: "told_since s (warning_tile_clause env ''3'' l s) =
             map (\<lambda>t. MazeClause [((''P'', t), True)]) (adj_list env s l)"
    using assms(1) by (simp add: told_since_warning warning_clauses_def)
  have "length (adj_list env s l) \<le> 4" using assms(2) by simp
  then show ?thesis using assms(2) unfolding t
    by (cases "adj_list env s l" rule: short_list_cases)
       (auto simp: mentions_only_def hazard_count_def)
qed

text \<open>
  The label 2 outside two and three unresolved neighbours. With one, the only clause told
  is the negative unit clause: satisfied by no hazard at all. With four, the six pairs and
  the clause of four negative literals are satisfied by exactly three hazards.
\<close>

lemma label_two_one_neighbour:
  assumes "length (adj_list env s l) = 1"
  shows "list_all (satisfies a) (told_since s (warning_tile_clause env ''2'' l s))
           \<longleftrightarrow> hazard_count a (adj_list env s l) = 0"
proof -
  have t: "told_since s (warning_tile_clause env ''2'' l s) =
             warning_clauses ''2'' (get_cardinal_locs env l 1) (adj_list env s l)"
    by (simp add: told_since_warning adj_list_def)
  have "length (adj_list env s l) \<le> 4" using assms by simp
  then show ?thesis using assms unfolding t
    by (cases "adj_list env s l" rule: short_list_cases)
       (auto simp: warning_clauses_def pair_clauses_small triple_eq hazard_count_def)
qed

lemma label_two_four_neighbours:
  assumes "length (adj_list env s l) = 4"
  shows "list_all (satisfies a) (told_since s (warning_tile_clause env ''2'' l s))
           \<longleftrightarrow> hazard_count a (adj_list env s l) = 3"
  using enc2_four [OF assms, of a "get_cardinal_locs env l 1"]
  by (simp add: told_since_warning adj_list_def hazard_count_def)

text \<open>The first three moves of the agent in the corridor.\<close>

lemma corridor_sel:
  "get_goal_loc (corridor fr) = (6, 0)" "get_player_loc (corridor fr) = (0, 0)"
  "get_frontier_locs (corridor fr) = fr"
  "get_cardinal_locs (corridor fr) l r =
     filter corridor_open [(fst l - r, snd l), (fst l + r, snd l), (fst l, snd l - r), (fst l, snd l + r)]"
  by (simp_all add: corridor_def)

lemma corridor_step1:
  "think ask_told 0 (corridor [(1, 0)]) corridor_agent0 \<lparr>loc = (0, 0), tile = ''.''\<rparr>
     = (Inr (Some (1, 0)), corridor_agent1)"
proof -
  have a0: "corridor_agent0 = \<lparr>goal = (6, 0), start = (0, 0), kb = [], possible_pits = {},
              pit_tiles = {}, safe_tiles = {(1, 0), (6, 0), (0, 0)}\<rparr>"
    by (simp add: corridor_agent0_def MazeAgent_init_def corridor_sel corridor_open_def Let_def add_safe_def)
  have st: "think_state (corridor [(1, 0)]) corridor_agent0 \<lparr>loc = (0, 0), tile = ''.''\<rparr> = corridor_agent1"
    by (simp add: think_state_def think_classify_def Let_def a0 corridor_agent1_def corridor_sel
          corridor_open_def tell_def add_safe_def discard_possible_def simplify_self_def)
       auto
  have sc: "think_scores ask_told (corridor [(1, 0)]) corridor_agent0 \<lparr>loc = (0, 0), tile = ''.''\<rparr>
              = (corridor_agent1, [((1, 0), 5)], True)"
    unfolding think_scores_def st
    by (simp add: corridor_sel think_query_def ask_told_def corridor_agent1_def Let_def
          get_manhattan_dist_def add_pit_def discard_possible_def add_safe_def)
  show ?thesis
    unfolding think_def sc
    by (simp add: corridor_sel a0 think_best_def Let_def tell_def add_safe_def)
qed

lemma corridor_step2:
  "think ask_told 0 (corridor [(2, 0)]) corridor_agent1 \<lparr>loc = (1, 0), tile = ''1''\<rparr>
     = (Inr (Some (2, 0)), corridor_agent2)"
proof -
  have w: "warning_tile_clause (corridor [(2, 0)]) ''1'' (1, 0)
             (add_safe (6, 0) (tell (MazeClause [((''P'', (6, 0)), False)]) corridor_agent1)) =
           \<lparr>goal = (6, 0), start = (0, 0),
      kb = [Tell (MazeClause [((''P'', (6, 0)), False)]), Tell (MazeClause [((''P'', (0, 0)), False)]),
            Tell (MazeClause [((''P'', (1, 0)), False)]), Simplify {} {(1, 0), (6, 0), (0, 0)},
            Tell (MazeClause [((''P'', (6, 0)), False)]), Tell (MazeClause [((''P'', (2, 0)), True)]),
            Simplify {(2, 0)} {(1, 0), (6, 0), (0, 0)}],
      possible_pits = {}, pit_tiles = {(2, 0)}, safe_tiles = {(1, 0), (6, 0), (0, 0)}\<rparr>"
    by (simp add: warning_tile_clause_def corridor_agent1_def corridor_sel corridor_open_def Let_def
          tell_def add_safe_def add_pit_def simplify_self_def) auto
  have g: "goal corridor_agent1 = (6, 0)" by (simp add: corridor_agent1_def)
  have st: "think_state (corridor [(2, 0)]) corridor_agent1 \<lparr>loc = (1, 0), tile = ''1''\<rparr> =
              corridor_agent2\<lparr>possible_pits := {(2, 0)}\<rparr>"
    unfolding think_state_def think_classify_def Let_def
    apply (simp add: w g)
    by (simp add: corridor_agent2_def corridor_sel corridor_open_def add_safe_def discard_possible_def
         add_possible_def simplify_self_def)
  have sc: "think_scores ask_told (corridor [(2, 0)]) corridor_agent1 \<lparr>loc = (1, 0), tile = ''1''\<rparr>
              = (corridor_agent2, [((2, 0), 24)], True)"
    unfolding think_scores_def st
    by (simp add: corridor_sel think_query_def ask_told_def corridor_agent2_def Let_def
          get_manhattan_dist_def add_pit_def discard_possible_def add_safe_def)
  show ?thesis
    unfolding think_def sc
    by (simp add: corridor_sel corridor_agent1_def think_best_def Let_def tell_def add_safe_def)
qed

lemma corridor_step3:
  "think ask_told 0 (corridor [(3, 0)]) corridor_agent2 \<lparr>loc = (2, 0), tile = ''P''\<rparr>
     = (Inr (Some (3, 0)), corridor_agent3)"
proof -
  have st: "think_state (corridor [(3, 0)]) corridor_agent2 \<lparr>loc = (2, 0), tile = ''P''\<rparr> = corridor_agent3"
    by (simp add: think_state_def think_classify_def Let_def corridor_agent2_def corridor_agent3_def
          corridor_sel tell_def add_safe_def add_pit_def discard_possible_def simplify_self_def)
       auto
  have sc: "think_scores ask_told (corridor [(3, 0)]) corridor_agent2 \<lparr>loc = (2, 0), tile = ''P''\<rparr>
              = (corridor_agent3, [((3, 0), 18)], True)"
    unfolding think_scores_def st
    by (simp add: corridor_sel think_query_def ask_told_def corridor_agent3_def Let_def
          get_manhattan_dist_def add_pit_def discard_possible_def add_safe_def)
  show ?thesis
    unfolding think_def sc
    by (simp add: corridor_sel corridor_agent2_def think_best_def Let_def tell_def add_safe_def)
qed

text \<open>
  C1 (the code departs from the claim). The agent in the corridor goes from \<open>(0, 0)\<close>
  over \<open>(1, 0)\<close> and the hazard \<open>(2, 0)\<close> to \<open>(3, 0)\<close>, each move being the one
  \<open>think\<close> returns, and every clause told on the way is true of the corridor. At
  \<open>(3, 0)\<close> the label is 2 and four neighbours are unresolved, the hazard the agent came
  from among them, since a hazard is recorded in \<open>pit_tiles\<close> and not in \<open>safe_tiles\<close>.
  The corridor has exactly two hazards among the four, yet it does not satisfy the clauses
  told (the pair of \<open>(3, -1)\<close> and \<open>(3, 1)\<close> fails), while an assignment with three
  hazards satisfies them all.
\<close>

theorem label_two_with_four_neighbours:
  "think ask_told 0 (corridor [(1, 0)]) corridor_agent0 \<lparr>loc = (0, 0), tile = ''.''\<rparr>
     = (Inr (Some (1, 0)), corridor_agent1) \<and>
   think ask_told 0 (corridor [(2, 0)]) corridor_agent1 \<lparr>loc = (1, 0), tile = ''1''\<rparr>
     = (Inr (Some (2, 0)), corridor_agent2) \<and>
   think ask_told 0 (corridor [(3, 0)]) corridor_agent2 \<lparr>loc = (2, 0), tile = ''P''\<rparr>
     = (Inr (Some (3, 0)), corridor_agent3) \<and>
   list_all (satisfies corridor_pits) (told (kb corridor_agent3)) \<and>
   adj_list (corridor [(4, 0), (3, -1), (3, 1)]) corridor_agent3 (3, 0) = [(2, 0), (4, 0), (3, -1), (3, 1)] \<and>
   hazard_count corridor_pits [(2, 0), (4, 0), (3, -1), (3, 1)] = 2 \<and>
   told_since corridor_agent3
       (warning_tile_clause (corridor [(4, 0), (3, -1), (3, 1)]) ''2'' (3, 0) corridor_agent3) =
     [MazeClause [((''P'', (2, 0)), True), ((''P'', (4, 0)), True)],
      MazeClause [((''P'', (2, 0)), True), ((''P'', (3, -1)), True)],
      MazeClause [((''P'', (2, 0)), True), ((''P'', (3, 1)), True)],
      MazeClause [((''P'', (4, 0)), True), ((''P'', (3, -1)), True)],
      MazeClause [((''P'', (4, 0)), True), ((''P'', (3, 1)), True)],
      MazeClause [((''P'', (3, -1)), True), ((''P'', (3, 1)), True)],
      MazeClause [((''P'', (2, 0)), False), ((''P'', (4, 0)), False),
                  ((''P'', (3, -1)), False), ((''P'', (3, 1)), False)]] \<and>
   \<not> satisfies corridor_pits (MazeClause [((''P'', (3, -1)), True), ((''P'', (3, 1)), True)]) \<and>
   hazard_count three_pits [(2, 0), (4, 0), (3, -1), (3, 1)] = 3 \<and>
   list_all (satisfies three_pits)
     (told_since corridor_agent3
        (warning_tile_clause (corridor [(4, 0), (3, -1), (3, 1)]) ''2'' (3, 0) corridor_agent3))"
proof -
  have adj: "adj_list (corridor [(4, 0), (3, -1), (3, 1)]) corridor_agent3 (3, 0)
               = [(2, 0), (4, 0), (3, -1), (3, 1)]"
    by (simp add: adj_list_def corridor_sel corridor_open_def corridor_agent3_def)
  have t: "told_since corridor_agent3
             (warning_tile_clause (corridor [(4, 0), (3, -1), (3, 1)]) ''2'' (3, 0) corridor_agent3)
           = warning_clauses ''2'' (get_cardinal_locs (corridor [(4, 0), (3, -1), (3, 1)]) (3, 0) 1)
               [(2, 0), (4, 0), (3, -1), (3, 1)]"
    using adj by (simp add: told_since_warning adj_list_def)
  have k: "list_all (satisfies corridor_pits) (told (kb corridor_agent3))"
    by (simp add: corridor_agent3_def corridor_pits_def)
  show ?thesis
    unfolding t
    using corridor_step1 corridor_step2 corridor_step3 adj k
    by (simp add: warning_clauses_def pair_clauses_small triple_eq hazard_count_def
          corridor_pits_def three_pits_def)
qed

text \<open>
  The degenerate cases of the labels 1 and 2: when as many unresolved neighbours remain as
  the label counts, one unit hazard clause is told for each of them and nothing else.
\<close>

lemma degenerate_units:
  assumes "(w = ''1'' \<and> length (adj_list env s l) = 1) \<or> (w = ''2'' \<and> length (adj_list env s l) = 2)"
  shows "told_since s (warning_tile_clause env w l s) =
           map (\<lambda>t. MazeClause [((''P'', t), True)]) (adj_list env s l)"
proof -
  have t: "told_since s (warning_tile_clause env w l s) =
             warning_clauses w (get_cardinal_locs env l 1) (adj_list env s l)"
    by (simp add: told_since_warning adj_list_def)
  have "length (adj_list env s l) \<le> 4" using assms by auto
  then show ?thesis using assms unfolding t
    by (cases "adj_list env s l" rule: short_list_cases) (auto simp: warning_clauses_def)
qed

text \<open>
  C2 (the code departs from the claim). The label 3 loops over all the cardinal
  neighbours, not over \<open>adj_list\<close>. The agent constructed at \<open>(0, 0)\<close> moves to
  \<open>(0, 1)\<close> and reads the label 3 there: three unresolved neighbours remain, yet a unit
  hazard clause is told for the known-safe start \<open>(0, 0)\<close> as well, and the start is added
  to \<open>pit_tiles\<close>.
\<close>

theorem label_three_tells_known_safe_neighbour:
  "length (adj_list (open_grid (3, 3) (0, 0) []) fresh_agent (0, 1)) = 3 \<and>
   (0, 0) \<in> set (get_cardinal_locs (open_grid (3, 3) (0, 0) []) (0, 1) 1) \<and>
   (0, 0) \<in> safe_tiles fresh_agent \<and>
   told_since fresh_agent (warning_tile_clause (open_grid (3, 3) (0, 0) []) ''3'' (0, 1) fresh_agent) =
     [MazeClause [((''P'', (-1, 1)), True)], MazeClause [((''P'', (1, 1)), True)],
      MazeClause [((''P'', (0, 0)), True)], MazeClause [((''P'', (0, 2)), True)]] \<and>
   (0, 0) \<in> pit_tiles (warning_tile_clause (open_grid (3, 3) (0, 0) []) ''3'' (0, 1) fresh_agent)"
  by (simp add: told_since_warning warning_tile_clause_fields warning_pits_def adj_list_def
        fresh_agent_eq open_grid_def warning_clauses_def)

subsection \<open>The constructor and \<open>is_safe_tile\<close>\<close>

text \<open>
  C9. After construction the safe set is the start, the goal and the cardinal neighbours of
  the start at radius 1; the sets of confirmed and of possible hazards are empty; the
  knowledge base has received no call.
\<close>

theorem init_state:
  "safe_tiles (MazeAgent_init env p) =
     {get_player_loc env, get_goal_loc env} \<union> set (get_cardinal_locs env (get_player_loc env) 1)
   \<and> pit_tiles (MazeAgent_init env p) = {}
   \<and> possible_pits (MazeAgent_init env p) = {}
   \<and> kb (MazeAgent_init env p) = []"
  by (auto simp: MazeAgent_init_def Let_def fold_add_safe_fields)

theorem init_state_witness:
  "safe_tiles fresh_agent = {(0, 0), (3, 3), (-1, 0), (1, 0), (0, -1), (0, 1)}
   \<and> pit_tiles fresh_agent = {} \<and> possible_pits fresh_agent = {} \<and> kb fresh_agent = []"
  using init_state [of "open_grid (3, 3) (0, 0) []" "\<lparr>loc = (0, 0), tile = ''.''\<rparr>"]
  by (auto simp: fresh_agent_def open_grid_def)

text \<open>
  C10. \<open>is_safe_tile\<close> looks at \<open>safe_tiles\<close> first, then at \<open>pit_tiles\<close>, then asks the
  knowledge base for the hazard and only then for its negation; it answers \<open>None\<close> when
  neither query succeeds.
\<close>

theorem is_safe_tile_precedence:
  "(l \<in> safe_tiles s \<longrightarrow> is_safe_tile ask s l = Some True) \<and>
   (l \<notin> safe_tiles s \<and> l \<in> pit_tiles s \<longrightarrow> is_safe_tile ask s l = Some False) \<and>
   (l \<notin> safe_tiles s \<and> l \<notin> pit_tiles s \<and> ask (kb s) (MazeClause [((''P'', l), True)])
      \<longrightarrow> is_safe_tile ask s l = Some False) \<and>
   (l \<notin> safe_tiles s \<and> l \<notin> pit_tiles s \<and> \<not> ask (kb s) (MazeClause [((''P'', l), True)])
      \<and> ask (kb s) (MazeClause [((''P'', l), False)]) \<longrightarrow> is_safe_tile ask s l = Some True) \<and>
   (l \<notin> safe_tiles s \<and> l \<notin> pit_tiles s \<and> \<not> ask (kb s) (MazeClause [((''P'', l), True)])
      \<and> \<not> ask (kb s) (MazeClause [((''P'', l), False)]) \<longrightarrow> is_safe_tile ask s l = None)"
  by (simp add: is_safe_tile_def)

theorem is_safe_tile_precedence_witness:
  "(0, 1) \<in> safe_tiles (add_pit (0, 1) fresh_agent) \<and> (0, 1) \<in> pit_tiles (add_pit (0, 1) fresh_agent) \<and>
   ask_all (kb (add_pit (0, 1) fresh_agent)) (MazeClause [((''P'', (0, 1)), True)]) \<and>
   is_safe_tile ask_all (add_pit (0, 1) fresh_agent) (0, 1) = Some True \<and>
   (5, 5) \<notin> safe_tiles (add_pit (5, 5) fresh_agent) \<and> (5, 5) \<in> pit_tiles (add_pit (5, 5) fresh_agent) \<and>
   is_safe_tile ask_safe_only (add_pit (5, 5) fresh_agent) (5, 5) = Some False \<and>
   (5, 5) \<notin> safe_tiles fresh_agent \<and> (5, 5) \<notin> pit_tiles fresh_agent \<and>
   is_safe_tile ask_all fresh_agent (5, 5) = Some False \<and>
   is_safe_tile ask_safe_only fresh_agent (5, 5) = Some True \<and>
   is_safe_tile ask_none fresh_agent (5, 5) = None"
  using is_safe_tile_precedence [of "(0, 1)" "add_pit (0, 1) fresh_agent" ask_all]
        is_safe_tile_precedence [of "(5, 5)" "add_pit (5, 5) fresh_agent" ask_safe_only]
        is_safe_tile_precedence [of "(5, 5)" fresh_agent ask_all]
        is_safe_tile_precedence [of "(5, 5)" fresh_agent ask_safe_only]
        is_safe_tile_precedence [of "(5, 5)" fresh_agent ask_none]
  by (simp add: fresh_agent_eq ask_all_def ask_none_def ask_safe_only_def add_pit_def)

subsection \<open>\<open>think\<close>\<close>

text \<open>
  C5. When the goal is on the frontier, \<open>think\<close> returns the goal, whatever the
  perception, the knowledge base and the other frontier locations are.
\<close>

theorem goal_shortcut:
  "goal s \<in> set (get_frontier_locs env) \<Longrightarrow> fst (think ask rnd env s p) = Inr (Some (goal s))"
  by (simp add: think_def Let_def)

theorem goal_shortcut_witness:
  "goal fresh_agent \<in> set (get_frontier_locs (open_grid (3, 3) (0, 0) [(2, 3), (3, 3)])) \<and>
   fst (think ask_all 0 (open_grid (3, 3) (0, 0) [(2, 3), (3, 3)]) fresh_agent \<lparr>loc = (3, 2), tile = ''1''\<rparr>)
     = Inr (Some (3, 3))"
  using goal_shortcut [of fresh_agent "open_grid (3, 3) (0, 0) [(2, 3), (3, 3)]" ask_all 0
          "\<lparr>loc = (3, 2), tile = ''1''\<rparr>"]
  by (simp add: fresh_agent_eq open_grid_def)

text \<open>
  With the goal on the frontier \<open>think\<close> leaves the agent as it was, but for the unit
  clause of the goal and the goal recorded safe: the tile is not looked at.
\<close>

lemma goal_on_frontier_state:
  "goal s \<in> set (get_frontier_locs env) \<Longrightarrow>
   snd (think ask rnd env s p) = add_safe (goal s) (tell (MazeClause [((''P'', goal s), False)]) s)"
  by (simp add: think_def Let_def)

text \<open>
  With an empty frontier no score is computed, \<open>assigned\<close> stays false and
  \<open>random.choice\<close> is called on the empty list.
\<close>

lemma think_empty_frontier:
  "get_frontier_locs env = [] \<Longrightarrow> fst (think ask rnd env s p) = Inl IndexError"
  by (simp add: think_def think_scores_def Let_def random_choice_def think_best_def)

text \<open>
  C7 (the code departs from the claim). On the empty frontier the fallback does not
  recover: \<open>think\<close> raises \<open>IndexError\<close>.
\<close>

theorem fallback_raises_on_empty_frontier:
  "get_frontier_locs (open_grid (3, 3) (0, 0) []) = [] \<and>
   fst (think ask_none 0 (open_grid (3, 3) (0, 0) []) fresh_agent \<lparr>loc = (0, 0), tile = ''.''\<rparr>)
     = Inl IndexError"
  by (simp add: think_empty_frontier open_grid_def)

lemma set_update_subset: "set (AList.update k v al) \<subseteq> insert (k, v) (set al)"
  by (induction al) auto

lemma set_fold_update:
  "set (fold (\<lambda>l. AList.update l (f l)) xs acc) \<subseteq> set acc \<union> (\<lambda>l. (l, f l)) ` set xs"
proof (induction xs arbitrary: acc)
  case Nil
  then show ?case by simp
next
  case (Cons x xs)
  show ?case using Cons.IH [of "AList.update x (f x) acc"] set_update_subset [of x "f x" acc]
    by auto
qed

lemma fold_update_nonempty: "xs \<noteq> [] \<Longrightarrow> fold (\<lambda>l. AList.update l (f l)) xs acc \<noteq> []"
proof -
  assume "xs \<noteq> []"
  then obtain x where "x \<in> set xs" by (cases xs) auto
  then have "map_of (fold (\<lambda>l. AList.update l (f l)) xs acc) x = Some (f x)"
    by (simp add: map_of_fold_update)
  then show ?thesis by auto
qed

text \<open>
  With a non-empty frontier that does not hold the goal, the loop over \<open>scores\<close> ends on
  a frontier location with a score other than 0, so \<open>think\<close> returns it: the fallback is
  not reached, and the random draw plays no part.
\<close>

lemma think_selected:
  assumes g: "goal s \<notin> set (get_frontier_locs env)" and ne: "get_frontier_locs env \<noteq> []"
  shows "\<exists>l. l \<in> set (get_frontier_locs env) \<and>
             think ask rnd env s p = (Inr (Some l), think_final ask env s p) \<and>
             fold think_best (fold (\<lambda>l. AList.update l (code_score (think_final ask env s p) l))
                                   (get_frontier_locs env) []) (PyInf, None)
               = (PyInt (code_score (think_final ask env s p) l), Some l)"
proof -
  let ?F = "get_frontier_locs env"
  let ?f = "code_score (think_final ask env s p)"
  let ?ps = "fold (\<lambda>l. AList.update l (?f l)) ?F []"
  have "?ps \<noteq> []" using ne by (rule fold_update_nonempty)
  from fold_think_best [OF this] obtain i where i: "i < length ?ps"
    and f: "fold think_best ?ps (PyInf, None) = (PyInt (snd (?ps ! i)), Some (fst (?ps ! i)))"
    by blast
  have "?ps ! i \<in> set ?ps" using i by simp
  then have "?ps ! i \<in> (\<lambda>l. (l, ?f l)) ` set ?F" using set_fold_update [of ?f ?F "[]"] by auto
  then obtain l where l: "l \<in> set ?F" and nth: "?ps ! i = (l, ?f l)" by auto
  have "l \<noteq> goal (think_final ask env s p)" using g l by (auto simp: think_final_goal)
  then have pos: "?f l \<noteq> 0" using code_score_pos [of l "think_final ask env s p"] by simp
  have t: "think ask rnd env s p = (Inr (Some l), think_final ask env s p)"
    using ne pos by (simp add: think_unfold [OF g] f nth Let_def)
  have "fold think_best ?ps (PyInf, None) = (PyInt (?f l), Some l)" using f nth by simp
  with l t show ?thesis by (intro exI [of _ l]) simp
qed

lemma think_total:
  assumes "goal s \<notin> set (get_frontier_locs env)" and "get_frontier_locs env \<noteq> []"
  shows "\<exists>l. l \<in> set (get_frontier_locs env) \<and> fst (think ask rnd env s p) = Inr (Some l)"
  using think_selected [OF assms, of ask rnd p] by auto

lemma think_deterministic:
  assumes "goal s \<notin> set (get_frontier_locs env)" and "get_frontier_locs env \<noteq> []"
  shows "think ask rnd' env s p = think ask rnd env s p"
  using think_selected [OF assms, of ask rnd p] think_selected [OF assms, of ask rnd' p] by auto

text \<open>\<open>think\<close> keeps the invariant, on both of its paths.\<close>

lemma think_inv: "agent_inv s \<Longrightarrow> agent_inv (snd (think ask rnd env s p))"
proof (cases "goal s \<in> set (get_frontier_locs env)")
  case True
  assume "agent_inv s"
  then show ?thesis using True by (auto simp: think_def Let_def agent_inv_def)
next
  case False
  assume "agent_inv s"
  then show ?thesis using False by (simp add: think_snd think_final_inv)
qed

text \<open>
  C4. For an agent that satisfies the invariant, a frontier that is not empty and does not
  hold the goal (its locations listed once each, in iteration order): the dictionary
  \<open>scores\<close> gives every frontier location its distance to the goal plus 20 when it is a
  confirmed hazard, plus 0 when it is confirmed safe and plus 15 otherwise, by the sets as
  the call leaves them; \<open>think\<close> returns the first location of least score; and the
  result does not depend on the random draw.
\<close>

theorem think_scores_and_selects:
  assumes inv: "agent_inv s" and d: "distinct (get_frontier_locs env)"
    and ne: "get_frontier_locs env \<noteq> []" and g: "goal s \<notin> set (get_frontier_locs env)"
  shows "fst (snd (think_scores ask env s p)) =
           map (\<lambda>l. (l, claimed_score (snd (think ask rnd env s p)) l)) (get_frontier_locs env) \<and>
         (\<exists>i. is_first_min (claimed_score (snd (think ask rnd env s p))) (get_frontier_locs env) i \<and>
              fst (think ask rnd env s p) = Inr (Some (get_frontier_locs env ! i))) \<and>
         think ask rnd' env s p = think ask rnd env s p"
proof -
  have s': "snd (think ask rnd env s p) = think_final ask env s p" using g by (rule think_snd)
  have "agent_inv (think_final ask env s p)" using inv by (rule think_final_inv)
  then have cs: "claimed_score (think_final ask env s p) = code_score (think_final ask env s p)"
    by (auto simp: claimed_score_eq)
  have a: "fst (snd (think_scores ask env s p)) =
             map (\<lambda>l. (l, code_score (think_final ask env s p) l)) (get_frontier_locs env)"
    using fold_update_distinct [OF d, of "[]" "code_score (think_final ask env s p)"]
    by (simp add: think_scores_final)
  have c: "think ask rnd' env s p = think ask rnd env s p" using g ne by (rule think_deterministic)
  show ?thesis using a think_nonempty [OF g ne d, of ask p rnd] c unfolding s' cs by simp
qed

theorem think_scores_and_selects_witness:
  "agent_inv fresh_agent \<and>
   distinct (get_frontier_locs (open_grid (3, 3) (0, 0) [(2, 0), (0, 2), (1, 1)])) \<and>
   goal fresh_agent \<notin> set (get_frontier_locs (open_grid (3, 3) (0, 0) [(2, 0), (0, 2), (1, 1)])) \<and>
   fst (snd (think_scores ask_none (open_grid (3, 3) (0, 0) [(2, 0), (0, 2), (1, 1)]) fresh_agent
              \<lparr>loc = (0, 1), tile = ''.''\<rparr>)) = [((2, 0), 19), ((0, 2), 4), ((1, 1), 4)] \<and>
   fst (think ask_none 7 (open_grid (3, 3) (0, 0) [(2, 0), (0, 2), (1, 1)]) fresh_agent
          \<lparr>loc = (0, 1), tile = ''.''\<rparr>) = Inr (Some (0, 2))"
proof -
  let ?env = "open_grid (3, 3) (0, 0) [(2, 0), (0, 2), (1, 1)]"
  let ?p = "\<lparr>loc = (0, 1), tile = ''.''\<rparr>"
  have inv: "agent_inv fresh_agent" by (simp add: fresh_agent_def init_inv)
  have F: "get_frontier_locs ?env = [(2, 0), (0, 2), (1, 1)]" by (simp add: open_grid_def)
  have d: "distinct (get_frontier_locs ?env)" and ne: "get_frontier_locs ?env \<noteq> []"
    and g: "goal fresh_agent \<notin> set (get_frontier_locs ?env)"
    by (simp_all add: F fresh_agent_eq)
  have gl: "goal fresh_agent = (3, 3)" by (simp add: fresh_agent_eq)
  have sc: "think_scores ask_none ?env fresh_agent ?p =
              (think_final ask_none ?env fresh_agent ?p, [((2, 0), 19), ((0, 2), 4), ((1, 1), 4)], True)"
    unfolding think_scores_final
    by (simp add: think_final_def code_score_def query_state_def
          think_state_def think_classify_def fresh_agent_eq open_grid_def Let_def
          tell_def add_safe_def discard_possible_def simplify_self_def
          ask_none_def get_manhattan_dist_def)
  have r: "fst (think ask_none 7 ?env fresh_agent ?p) = Inr (Some (0, 2))"
    using think_scores_and_selects [OF inv d ne g, of ask_none ?p 7 7] g
    by (simp add: think_def sc think_best_def Let_def F gl)
  show ?thesis using inv d g sc r by simp
qed

text \<open>The agent when the loop over the frontier starts, for a clear tile.\<close>

lemma told_map_Tell_fun: "told (map (\<lambda>t. Tell (f t)) xs) = map f xs"
  by (induction xs) auto

lemma told_since_append: "kb s' = kb s @ calls \<Longrightarrow> told_since s s' = told calls"
  by (simp add: told_since_def)

lemma think_state_clear:
  assumes "tile p = ''.''"
  shows "told_since s (think_state env s p) =
           MazeClause [((''P'', goal s), False)] # MazeClause [((''P'', loc p), False)] #
           map (\<lambda>t. MazeClause [((''P'', t), False)]) (get_cardinal_locs env (loc p) 1)"
    and "safe_tiles (think_state env s p) =
           insert (loc p) (insert (goal s) (safe_tiles s)) \<union> set (get_cardinal_locs env (loc p) 1)"
    and "possible_pits (think_state env s p) =
           possible_pits s - {loc p} - set (get_cardinal_locs env (loc p) 1)"
    and "pit_tiles (think_state env s p) = pit_tiles s"
proof -
  have "kb (think_state env s p) = kb s @
          (Tell (MazeClause [((''P'', goal s), False)]) # Tell (MazeClause [((''P'', loc p), False)]) #
           map (\<lambda>t. Tell (MazeClause [((''P'', t), False)])) (get_cardinal_locs env (loc p) 1) @
           [Simplify (pit_tiles s)
              (insert (loc p) (insert (goal s) (safe_tiles s)) \<union> set (get_cardinal_locs env (loc p) 1))])"
    using assms by (simp add: think_state_def think_classify_def Let_def fold_clear_fields)
  from told_since_append [OF this]
  show "told_since s (think_state env s p) =
           MazeClause [((''P'', goal s), False)] # MazeClause [((''P'', loc p), False)] #
           map (\<lambda>t. MazeClause [((''P'', t), False)]) (get_cardinal_locs env (loc p) 1)"
    by (simp add: told_map_Tell_fun)
  show "safe_tiles (think_state env s p) =
           insert (loc p) (insert (goal s) (safe_tiles s)) \<union> set (get_cardinal_locs env (loc p) 1)"
    using assms by (simp add: think_state_def think_classify_def Let_def fold_clear_fields)
  show "possible_pits (think_state env s p) =
           possible_pits s - {loc p} - set (get_cardinal_locs env (loc p) 1)"
    using assms by (simp add: think_state_def think_classify_def Let_def fold_clear_fields)
  show "pit_tiles (think_state env s p) = pit_tiles s"
    using assms by (simp add: think_state_def think_classify_def Let_def fold_clear_fields)
qed

lemma think_final_mono:
  "kb (think_final ask env s p) = kb (think_state env s p)"
  "safe_tiles (think_state env s p) \<subseteq> safe_tiles (think_final ask env s p)"
  "pit_tiles (think_state env s p) \<subseteq> pit_tiles (think_final ask env s p)"
  "possible_pits (think_final ask env s p) \<subseteq> possible_pits (think_state env s p)"
  by (auto simp: think_final_def fold_query_state_fields)

text \<open>
  C6 (as amended). For a perception whose tile is \<open>"."\<close>, when the goal is not on the
  frontier: after the call the current location and each of its cardinal neighbours is in
  the safe set and not in the set of possible hazards, and its unit not-hazard clause has
  been told during the call.
\<close>

theorem clear_tile_classified:
  assumes "tile p = ''.''" and "goal s \<notin> set (get_frontier_locs env)"
  shows "list_all (\<lambda>l. l \<in> safe_tiles (snd (think ask rnd env s p)) \<and>
                       l \<notin> possible_pits (snd (think ask rnd env s p)) \<and>
                       MazeClause [((''P'', l), False)] \<in> set (told_since s (snd (think ask rnd env s p))))
           (loc p # get_cardinal_locs env (loc p) 1)"
proof -
  have s': "snd (think ask rnd env s p) = think_final ask env s p" using assms(2) by (rule think_snd)
  have t: "told_since s (think_final ask env s p) = told_since s (think_state env s p)"
    by (simp add: told_since_def think_final_mono(1))
  show ?thesis
    unfolding s' t list_all_iff
    using think_final_mono(2) [of env s p ask] think_final_mono(4) [of ask env s p]
    by (auto simp: think_state_clear [OF assms(1)])
qed

theorem clear_tile_classified_witness:
  "tile \<lparr>loc = (0, 1), tile = ''.''\<rparr> = ''.'' \<and>
   goal fresh_agent \<notin> set (get_frontier_locs (open_grid (3, 3) (0, 0) [(0, 2)])) \<and>
   (1, 1) \<in> safe_tiles (snd (think ask_none 0 (open_grid (3, 3) (0, 0) [(0, 2)]) fresh_agent
                               \<lparr>loc = (0, 1), tile = ''.''\<rparr>)) \<and>
   (1, 1) \<notin> possible_pits (snd (think ask_none 0 (open_grid (3, 3) (0, 0) [(0, 2)]) fresh_agent
                                   \<lparr>loc = (0, 1), tile = ''.''\<rparr>)) \<and>
   told_since fresh_agent
     (snd (think ask_none 0 (open_grid (3, 3) (0, 0) [(0, 2)]) fresh_agent \<lparr>loc = (0, 1), tile = ''.''\<rparr>))
     = [MazeClause [((''P'', (3, 3)), False)], MazeClause [((''P'', (0, 1)), False)],
        MazeClause [((''P'', (-1, 1)), False)], MazeClause [((''P'', (1, 1)), False)],
        MazeClause [((''P'', (0, 0)), False)], MazeClause [((''P'', (0, 2)), False)]]"
proof -
  let ?env = "open_grid (3, 3) (0, 0) [(0, 2)]"
  let ?p = "\<lparr>loc = (0, 1), tile = ''.''\<rparr>"
  let ?s' = "snd (think ask_none 0 ?env fresh_agent ?p)"
  have g: "goal fresh_agent \<notin> set (get_frontier_locs ?env)"
    by (simp add: fresh_agent_eq open_grid_def)
  have t: "tile ?p = ''.''" by simp
  have N: "loc ?p # get_cardinal_locs ?env (loc ?p) 1 = [(0, 1), (-1, 1), (1, 1), (0, 0), (0, 2)]"
    by (simp add: open_grid_def)
  have "list_all (\<lambda>l. l \<in> safe_tiles ?s' \<and> l \<notin> possible_pits ?s' \<and>
                       MazeClause [((''P'', l), False)] \<in> set (told_since fresh_agent ?s'))
          (loc ?p # get_cardinal_locs ?env (loc ?p) 1)"
    using t g by (rule clear_tile_classified)
  then have a: "(1, 1) \<in> safe_tiles ?s' \<and> (1, 1) \<notin> possible_pits ?s'"
    unfolding N by simp
  have "told_since fresh_agent ?s' = told_since fresh_agent (think_state ?env fresh_agent ?p)"
    by (simp add: think_snd [OF g] told_since_def think_final_mono(1))
  also have "\<dots> = [MazeClause [((''P'', (3, 3)), False)], MazeClause [((''P'', (0, 1)), False)],
        MazeClause [((''P'', (-1, 1)), False)], MazeClause [((''P'', (1, 1)), False)],
        MazeClause [((''P'', (0, 0)), False)], MazeClause [((''P'', (0, 2)), False)]]"
    unfolding think_state_clear(1) [OF t] by (simp add: fresh_agent_eq open_grid_def)
  finally show ?thesis using a g by simp
qed

text \<open>
  The claim as stated fails when the goal is on the frontier: \<open>think\<close> returns before
  it looks at the tile, so the current location is not recorded safe and the only clause
  told is the one of the goal.
\<close>

theorem clear_tile_classified_counterexample:
  "tile \<lparr>loc = (3, 2), tile = ''.''\<rparr> = ''.'' \<and>
   (3, 2) \<notin> safe_tiles (snd (think ask_none 0 (open_grid (3, 3) (0, 0) [(2, 3), (3, 3)]) fresh_agent
                                \<lparr>loc = (3, 2), tile = ''.''\<rparr>)) \<and>
   told_since fresh_agent (snd (think ask_none 0 (open_grid (3, 3) (0, 0) [(2, 3), (3, 3)]) fresh_agent
                                  \<lparr>loc = (3, 2), tile = ''.''\<rparr>))
     = [MazeClause [((''P'', (3, 3)), False)]]"
  by (simp add: think_def Let_def told_since_def fresh_agent_eq open_grid_def tell_def add_safe_def)

text \<open>
  C3 (as amended). When the goal is not on the frontier and both queries succeed for a
  frontier location, \<open>think\<close> raises nothing: it returns a frontier location, and the
  location of the contradiction ends in both \<open>pit_tiles\<close> and \<open>safe_tiles\<close>, out of
  \<open>possible_pits\<close>, scored as a confirmed hazard.
\<close>

theorem contradiction_scored_as_hazard:
  assumes g: "goal s \<notin> set (get_frontier_locs env)" and l: "l \<in> set (get_frontier_locs env)"
    and hz: "ask (kb (think_state env s p)) (MazeClause [((''P'', l), True)])"
    and sf: "ask (kb (think_state env s p)) (MazeClause [((''P'', l), False)])"
  shows "(\<exists>r. r \<in> set (get_frontier_locs env) \<and> fst (think ask rnd env s p) = Inr (Some r)) \<and>
         l \<in> pit_tiles (snd (think ask rnd env s p)) \<and>
         l \<in> safe_tiles (snd (think ask rnd env s p)) \<and>
         l \<notin> possible_pits (snd (think ask rnd env s p)) \<and>
         map_of (fst (snd (think_scores ask env s p))) l = Some (get_manhattan_dist s l + 20)"
proof -
  have ne: "get_frontier_locs env \<noteq> []" using l by auto
  have s': "snd (think ask rnd env s p) = think_final ask env s p" using g by (rule think_snd)
  have p: "l \<in> pit_tiles (think_final ask env s p)" and s: "l \<in> safe_tiles (think_final ask env s p)"
    and q: "l \<notin> possible_pits (think_final ask env s p)"
    using l hz sf by (simp_all add: think_final_def fold_query_state_fields)
  have d: "get_manhattan_dist (think_final ask env s p) l = get_manhattan_dist s l"
    by (simp add: get_manhattan_dist_def think_final_goal)
  have m: "map_of (fst (snd (think_scores ask env s p))) l = Some (get_manhattan_dist s l + 20)"
    using l p d by (simp add: think_scores_final map_of_fold_update code_score_def)
  show ?thesis using think_total [OF g ne, of ask rnd p] p s q m unfolding s' by simp
qed

theorem contradiction_scored_as_hazard_witness:
  "goal fresh_agent \<notin> set (get_frontier_locs (open_grid (3, 3) (0, 0) [(0, 2)])) \<and>
   ask_all (kb (think_state (open_grid (3, 3) (0, 0) [(0, 2)]) fresh_agent \<lparr>loc = (0, 1), tile = ''1''\<rparr>))
     (MazeClause [((''P'', (0, 2)), True)]) \<and>
   ask_all (kb (think_state (open_grid (3, 3) (0, 0) [(0, 2)]) fresh_agent \<lparr>loc = (0, 1), tile = ''1''\<rparr>))
     (MazeClause [((''P'', (0, 2)), False)]) \<and>
   (0, 2) \<in> pit_tiles (snd (think ask_all 0 (open_grid (3, 3) (0, 0) [(0, 2)]) fresh_agent
                               \<lparr>loc = (0, 1), tile = ''1''\<rparr>)) \<and>
   (0, 2) \<in> safe_tiles (snd (think ask_all 0 (open_grid (3, 3) (0, 0) [(0, 2)]) fresh_agent
                                \<lparr>loc = (0, 1), tile = ''1''\<rparr>)) \<and>
   map_of (fst (snd (think_scores ask_all (open_grid (3, 3) (0, 0) [(0, 2)]) fresh_agent
                       \<lparr>loc = (0, 1), tile = ''1''\<rparr>))) (0, 2) = Some 24"
proof -
  let ?env = "open_grid (3, 3) (0, 0) [(0, 2)]"
  let ?p = "\<lparr>loc = (0, 1), tile = ''1''\<rparr>"
  have g: "goal fresh_agent \<notin> set (get_frontier_locs ?env)"
    by (simp add: fresh_agent_eq open_grid_def)
  have l: "(0, 2) \<in> set (get_frontier_locs ?env)" by (simp add: open_grid_def)
  have hz: "ask_all (kb (think_state ?env fresh_agent ?p)) (MazeClause [((''P'', (0, 2)), True)])"
    and sf: "ask_all (kb (think_state ?env fresh_agent ?p)) (MazeClause [((''P'', (0, 2)), False)])"
    by (simp_all add: ask_all_def)
  have d: "get_manhattan_dist fresh_agent (0, 2) + 20 = 24"
    by (simp add: get_manhattan_dist_def fresh_agent_eq)
  show ?thesis
    using contradiction_scored_as_hazard [where s = fresh_agent and env = ?env and l = "(0, 2)"
            and ask = ask_all and p = ?p and rnd = 0] g l hz sf
    unfolding d by simp
qed

text \<open>
  The claim as stated fails: with a knowledge base that entails both the hazard and its
  negation at \<open>(0, 2)\<close>, \<open>think\<close> returns \<open>(0, 2)\<close> to its caller.
\<close>

theorem contradiction_not_fatal_counterexample:
  "ask_all (kb (think_state (open_grid (3, 3) (0, 0) [(0, 2)]) fresh_agent \<lparr>loc = (0, 1), tile = ''1''\<rparr>))
     (MazeClause [((''P'', (0, 2)), True)]) \<and>
   ask_all (kb (think_state (open_grid (3, 3) (0, 0) [(0, 2)]) fresh_agent \<lparr>loc = (0, 1), tile = ''1''\<rparr>))
     (MazeClause [((''P'', (0, 2)), False)]) \<and>
   fst (think ask_all 0 (open_grid (3, 3) (0, 0) [(0, 2)]) fresh_agent \<lparr>loc = (0, 1), tile = ''1''\<rparr>)
     = Inr (Some (0, 2))"
proof -
  let ?env = "open_grid (3, 3) (0, 0) [(0, 2)]"
  let ?p = "\<lparr>loc = (0, 1), tile = ''1''\<rparr>"
  have g: "goal fresh_agent \<notin> set (get_frontier_locs ?env)"
    by (simp add: fresh_agent_eq open_grid_def)
  have ne: "get_frontier_locs ?env \<noteq> []" by (simp add: open_grid_def)
  have "\<exists>l. l \<in> set (get_frontier_locs ?env) \<and> fst (think ask_all 0 ?env fresh_agent ?p) = Inr (Some l)"
    using g ne by (rule think_total)
  then have "fst (think ask_all 0 ?env fresh_agent ?p) = Inr (Some (0, 2))"
    by (simp add: open_grid_def)
  then show ?thesis by (simp add: ask_all_def)
qed

text \<open>
  A tile label outside \<open>"."\<close>, \<open>"P"\<close>, \<open>"1"\<close>, \<open>"2"\<close>, \<open>"3"\<close> takes the last branch
  of \<open>think\<close>, and no branch of \<open>warning_tile_clause\<close>.
\<close>

lemma think_state_unknown:
  assumes "tile p \<notin> {''.'', ''P'', ''1'', ''2'', ''3''}"
  shows "told_since s (think_state env s p) = [MazeClause [((''P'', goal s), False)]]"
    and "safe_tiles (think_state env s p) = insert (loc p) (insert (goal s) (safe_tiles s))"
    and "possible_pits (think_state env s p) =
           (possible_pits s - {loc p}) \<union>
           {c \<in> set (get_cardinal_locs env (loc p) 1). c \<notin> insert (loc p) (insert (goal s) (safe_tiles s))}"
    and "pit_tiles (think_state env s p) = pit_tiles s"
proof -
  have w: "warning_clauses (tile p) a b = []" "warning_pits (tile p) a b = {}" for a b
    using assms by (simp_all add: warning_clauses_def warning_pits_def)
  have "kb (think_state env s p) = kb s @
          [Tell (MazeClause [((''P'', goal s), False)]),
           Simplify (pit_tiles s) (insert (goal s) (safe_tiles s)),
           Simplify (pit_tiles s) (insert (loc p) (insert (goal s) (safe_tiles s)))]"
    using assms
    by (simp add: think_state_def think_classify_def Let_def fold_possible_fields
          warning_tile_clause_fields w)
  from told_since_append [OF this]
  show "told_since s (think_state env s p) = [MazeClause [((''P'', goal s), False)]]" by simp
  show "safe_tiles (think_state env s p) = insert (loc p) (insert (goal s) (safe_tiles s))"
    using assms
    by (simp add: think_state_def think_classify_def Let_def fold_possible_fields
          warning_tile_clause_fields w)
  show "possible_pits (think_state env s p) =
           (possible_pits s - {loc p}) \<union>
           {c \<in> set (get_cardinal_locs env (loc p) 1). c \<notin> insert (loc p) (insert (goal s) (safe_tiles s))}"
    using assms
    by (simp add: think_state_def think_classify_def Let_def fold_possible_fields
          warning_tile_clause_fields w)
  show "pit_tiles (think_state env s p) = pit_tiles s"
    using assms
    by (simp add: think_state_def think_classify_def Let_def fold_possible_fields
          warning_tile_clause_fields w)
qed

text \<open>
  C8 (as amended). For a tile label outside the recognised set, with a non-empty frontier
  that does not hold the goal, \<open>think\<close> raises nothing and returns a frontier location:
  it handles the tile as a warning that yields no clause. Only the unit clause of the goal
  is told, the location is recorded safe, and its cardinal neighbours that are not
  recorded safe become possible hazards.
\<close>

theorem unknown_tile_handled_as_warning:
  assumes "tile p \<notin> {''.'', ''P'', ''1'', ''2'', ''3''}"
    and "goal s \<notin> set (get_frontier_locs env)" and "get_frontier_locs env \<noteq> []"
  shows "(\<exists>l. l \<in> set (get_frontier_locs env) \<and> fst (think ask rnd env s p) = Inr (Some l)) \<and>
         told_since s (think_state env s p) = [MazeClause [((''P'', goal s), False)]] \<and>
         pit_tiles (think_state env s p) = pit_tiles s \<and>
         safe_tiles (think_state env s p) = insert (loc p) (insert (goal s) (safe_tiles s)) \<and>
         possible_pits (think_state env s p) =
           (possible_pits s - {loc p}) \<union>
           {c \<in> set (get_cardinal_locs env (loc p) 1). c \<notin> insert (loc p) (insert (goal s) (safe_tiles s))}"
  using think_total [OF assms(2,3), of ask rnd p] think_state_unknown [OF assms(1), where s = s and env = env]
  by simp

theorem unknown_tile_handled_as_warning_witness:
  "tile \<lparr>loc = (0, 1), tile = ''X''\<rparr> \<notin> {''.'', ''P'', ''1'', ''2'', ''3''} \<and>
   goal fresh_agent \<notin> set (get_frontier_locs (open_grid (3, 3) (0, 0) [(1, 1), (0, 2)])) \<and>
   get_frontier_locs (open_grid (3, 3) (0, 0) [(1, 1), (0, 2)]) = [(1, 1), (0, 2)] \<and>
   told_since fresh_agent
     (think_state (open_grid (3, 3) (0, 0) [(1, 1), (0, 2)]) fresh_agent \<lparr>loc = (0, 1), tile = ''X''\<rparr>)
     = [MazeClause [((''P'', (3, 3)), False)]] \<and>
   (0, 1) \<in> safe_tiles
     (think_state (open_grid (3, 3) (0, 0) [(1, 1), (0, 2)]) fresh_agent \<lparr>loc = (0, 1), tile = ''X''\<rparr>) \<and>
   (0, 2) \<in> possible_pits
     (think_state (open_grid (3, 3) (0, 0) [(1, 1), (0, 2)]) fresh_agent \<lparr>loc = (0, 1), tile = ''X''\<rparr>)"
proof -
  let ?env = "open_grid (3, 3) (0, 0) [(1, 1), (0, 2)]"
  let ?p = "\<lparr>loc = (0, 1), tile = ''X''\<rparr>"
  have t: "tile ?p \<notin> {''.'', ''P'', ''1'', ''2'', ''3''}" by simp
  have F: "get_frontier_locs ?env = [(1, 1), (0, 2)]" by (simp add: open_grid_def)
  have g: "goal fresh_agent \<notin> set (get_frontier_locs ?env)" by (simp add: F fresh_agent_eq)
  have ne: "get_frontier_locs ?env \<noteq> []" by (simp add: F)
  note th = unknown_tile_handled_as_warning [OF t g ne, of ask_none 0]
  have a: "told_since fresh_agent (think_state ?env fresh_agent ?p) = [MazeClause [((''P'', (3, 3)), False)]]"
    using th by (simp add: fresh_agent_eq)
  have b: "(0, 1) \<in> safe_tiles (think_state ?env fresh_agent ?p)"
    using th by simp
  have "possible_pits (think_state ?env fresh_agent ?p) =
          (possible_pits fresh_agent - {loc ?p}) \<union>
          {c \<in> set (get_cardinal_locs ?env (loc ?p) 1).
             c \<notin> insert (loc ?p) (insert (goal fresh_agent) (safe_tiles fresh_agent))}"
    using th by blast
  then have c: "(0, 2) \<in> possible_pits (think_state ?env fresh_agent ?p)"
    by (simp add: fresh_agent_eq open_grid_def)
  show ?thesis using t g F a b c by simp
qed

text \<open>
  The claim as stated fails: the label \<open>"X"\<close> raises no error, and \<open>think\<close> returns a
  frontier location.
\<close>

theorem malformed_tile_counterexample:
  "tile \<lparr>loc = (0, 1), tile = ''X''\<rparr> \<notin> {''.'', ''P'', ''1'', ''2'', ''3''} \<and>
   fst (think ask_none 0 (open_grid (3, 3) (0, 0) [(0, 2)]) fresh_agent \<lparr>loc = (0, 1), tile = ''X''\<rparr>)
     = Inr (Some (0, 2))"
proof -
  let ?env = "open_grid (3, 3) (0, 0) [(0, 2)]"
  let ?p = "\<lparr>loc = (0, 1), tile = ''X''\<rparr>"
  have g: "goal fresh_agent \<notin> set (get_frontier_locs ?env)"
    by (simp add: fresh_agent_eq open_grid_def)
  have ne: "get_frontier_locs ?env \<noteq> []" by (simp add: open_grid_def)
  have "\<exists>l. l \<in> set (get_frontier_locs ?env) \<and> fst (think ask_none 0 ?env fresh_agent ?p) = Inr (Some l)"
    using g ne by (rule think_total)
  then have "fst (think ask_none 0 ?env fresh_agent ?p) = Inr (Some (0, 2))"
    by (simp add: open_grid_def)
  then show ?thesis by simp
qed

end
